theory Spec2Isabelle
  imports Main
begin

section \<open>Values, errors and logging\<close>

text \<open>
  A parsed YAML document is an untyped Python value. The reader only ever looks keys up
  by string, so a mapping is an association list with string keys, read with
  \<open>map_of\<close> (the first binding of a key is the dict's binding). Text is ASCII. The
  other scalars of YAML (floats, dates) are left out: the reader treats them as it treats
  an integer, none has \<open>.get\<close>, \<open>.upper\<close>, items or an iterator.
\<close>

datatype yaml =
    YNull
  | YBool bool
  | YInt int
  | YStr string
  | YList "yaml list"
  | YMap "(string \<times> yaml) list"

datatype error = KeyError | AttributeError | TypeError

datatype log_event =
    InfoProcessing string
  | InfoModel yaml
  | InfoSource yaml
  | WarnSkipping string
  | WarnDeprecation

type_synonym 'a logged = "log_event list \<times> (error + 'a)"

definition bindE :: "error + 'a \<Rightarrow> ('a \<Rightarrow> error + 'b) \<Rightarrow> error + 'b" where
  "bindE m f = (case m of Inl e \<Rightarrow> Inl e | Inr x \<Rightarrow> f x)"

definition ret :: "'a \<Rightarrow> 'a logged" where
  "ret x = ([], Inr x)"

definition lift :: "error + 'a \<Rightarrow> 'a logged" where
  "lift r = ([], r)"

definition logging :: "log_event \<Rightarrow> unit logged" where
  "logging ev = ([ev], Inr ())"

definition bindL :: "'a logged \<Rightarrow> ('a \<Rightarrow> 'b logged) \<Rightarrow> 'b logged" where
  "bindL m f =
     (case m of
        (l, Inl e) \<Rightarrow> (l, Inl e)
      | (l, Inr x) \<Rightarrow> (case f x of (l', r) \<Rightarrow> (l @ l', r)))"

section \<open>Python operations on parsed values\<close>

definition is_dict :: "yaml \<Rightarrow> bool" where
  "is_dict v = (case v of YMap _ \<Rightarrow> True | _ \<Rightarrow> False)"

text \<open>\<open>x.get\<close>: only a dict has the method.\<close>

definition attr_get :: "yaml \<Rightarrow> error + (string \<times> yaml) list" where
  "attr_get v = (case v of YMap kvs \<Rightarrow> Inr kvs | _ \<Rightarrow> Inl AttributeError)"

definition dict_get :: "(string \<times> yaml) list \<Rightarrow> string \<Rightarrow> yaml \<Rightarrow> yaml" where
  "dict_get kvs k d = (case map_of kvs k of Some v \<Rightarrow> v | None \<Rightarrow> d)"

text \<open>\<open>x.get(k, d)\<close> with a default that cannot fail.\<close>

definition py_get :: "yaml \<Rightarrow> string \<Rightarrow> yaml \<Rightarrow> error + yaml" where
  "py_get v k d = bindE (attr_get v) (\<lambda>kvs. Inr (dict_get kvs k d))"

text \<open>\<open>x[k]\<close> with a string \<open>k\<close>.\<close>

definition py_getitem :: "yaml \<Rightarrow> string \<Rightarrow> error + yaml" where
  "py_getitem v k =
     (case v of
        YMap kvs \<Rightarrow> (case map_of kvs k of Some x \<Rightarrow> Inr x | None \<Rightarrow> Inl KeyError)
      | _ \<Rightarrow> Inl TypeError)"

fun is_substring :: "string \<Rightarrow> string \<Rightarrow> bool" where
  "is_substring k [] = (k = [])"
| "is_substring k (c # cs) = (take (length k) (c # cs) = k \<or> is_substring k cs)"

text \<open>\<open>k in x\<close> with a string \<open>k\<close>.\<close>

definition py_contains :: "string \<Rightarrow> yaml \<Rightarrow> error + bool" where
  "py_contains k v =
     (case v of
        YMap kvs \<Rightarrow> Inr (k \<in> set (map fst kvs))
      | YList xs \<Rightarrow> Inr (YStr k \<in> set xs)
      | YStr s \<Rightarrow> Inr (is_substring k s)
      | _ \<Rightarrow> Inl TypeError)"

text \<open>\<open>for x in v\<close>: the elements of a list, the keys of a dict, the characters of a string.\<close>

definition py_iter :: "yaml \<Rightarrow> error + yaml list" where
  "py_iter v =
     (case v of
        YList xs \<Rightarrow> Inr xs
      | YMap kvs \<Rightarrow> Inr (map YStr (remdups (map fst kvs)))
      | YStr s \<Rightarrow> Inr (map (\<lambda>c. YStr [c]) s)
      | _ \<Rightarrow> Inl TypeError)"

definition upper_char :: "char \<Rightarrow> char" where
  "upper_char c =
     (let n = (of_char c :: nat) in if 97 \<le> n \<and> n \<le> 122 then char_of (n - 32) else c)"

definition upper :: "string \<Rightarrow> string" where
  "upper s = map upper_char s"

text \<open>\<open>x.upper()\<close>: only a string has the method.\<close>

definition py_upper :: "yaml \<Rightarrow> error + string" where
  "py_upper v = (case v of YStr s \<Rightarrow> Inr (upper s) | _ \<Rightarrow> Inl AttributeError)"

section \<open>parse\_ref\<close>

text \<open>
  The pattern is \<^verbatim>\<open>ref\(['\"]([\w\_\-\ ]+)['\"]\)\<close>. The character class of the group
  holds no quote, so the greedy group is the longest run of class characters and
  backtracking into it never finds another match.
\<close>

definition is_word :: "char \<Rightarrow> bool" where
  "is_word c =
     (let n = (of_char c :: nat) in
        (48 \<le> n \<and> n \<le> 57) \<or> (65 \<le> n \<and> n \<le> 90) \<or> (97 \<le> n \<and> n \<le> 122) \<or> n = 95)"

definition is_name_char :: "char \<Rightarrow> bool" where
  "is_name_char c = (is_word c \<or> c = CHR ''_'' \<or> c = CHR ''-'' \<or> c = CHR '' '')"

definition is_quote :: "char \<Rightarrow> bool" where
  "is_quote c = (c = CHR 0x27 \<or> c = CHR 0x22)"

text \<open>A match of the pattern at the start of the text: the group and the length of the match.\<close>

definition match_at :: "string \<Rightarrow> (string \<times> nat) option" where
  "match_at s =
     (if take 4 s = ''ref('' then
        (case drop 4 s of
           [] \<Rightarrow> None
         | q # r \<Rightarrow>
             if is_quote q then
               (let g = takeWhile is_name_char r in
                  if g = [] then None
                  else
                    (case dropWhile is_name_char r of
                       q' # c # _ \<Rightarrow>
                         if is_quote q' \<and> c = CHR '')'' then Some (g, length g + 7) else None
                     | _ \<Rightarrow> None))
             else None)
      else None)"

text \<open>
  \<open>re.findall\<close>: the groups of the non-overlapping matches, leftmost first; \<open>skip\<close>
  counts the characters of the current match still to pass.
\<close>

fun findall_from :: "nat \<Rightarrow> string \<Rightarrow> string list" where
  "findall_from skip [] = []"
| "findall_from skip (c # cs) =
     (if 0 < skip then findall_from (skip - 1) cs
      else
        (case match_at (c # cs) of
           Some (g, n) \<Rightarrow> g # findall_from (n - 1) cs
         | None \<Rightarrow> findall_from 0 cs))"

definition findall :: "string \<Rightarrow> string list" where
  "findall text = findall_from 0 text"

definition parse_ref :: "string \<Rightarrow> string" where
  "parse_ref text = (let matches = findall text in if matches \<noteq> [] then hd matches else text)"

text \<open>\<open>self.parse_ref(v)\<close> on an untyped value: \<open>re.findall\<close> takes a string only.\<close>

definition py_parse_ref :: "yaml \<Rightarrow> error + yaml" where
  "py_parse_ref v = (case v of YStr text \<Rightarrow> Inr (YStr (parse_ref text)) | _ \<Rightarrow> Inl TypeError)"

section \<open>read\_column\<close>

type_synonym mb_column = "string \<rightharpoonup> yaml"

definition META_FIELDS :: "string list" where
  "META_FIELDS = [''semantic_type'', ''visibility_type'']"

text \<open>
  The body of the loop over the tests. The bound method \<open>.get\<close> of the meta value is
  resolved first, then its arguments are evaluated, the default
  \<open>parse_ref(relationships["to"])\<close> among them, and only then the lookup is made.
\<close>

definition relationship_test :: "yaml \<Rightarrow> yaml \<Rightarrow> mb_column \<Rightarrow> error + mb_column" where
  "relationship_test column test mb_column =
     (if is_dict test then
        bindE (py_contains ''relationships'' test) (\<lambda>found.
        if found then
          bindE (py_getitem test ''relationships'') (\<lambda>relationships.
          bindE (py_get column ''meta'' (YMap [])) (\<lambda>meta.
          bindE (attr_get meta) (\<lambda>meta_items.
          bindE (py_getitem relationships ''to'') (\<lambda>to.
          bindE (py_parse_ref to) (\<lambda>default.
          bindE (py_upper (dict_get meta_items ''metabase.fk_ref'' default)) (\<lambda>fk_target_table.
          bindE (py_getitem relationships ''field'') (\<lambda>field.
          bindE (py_upper field) (\<lambda>fk_target_field.
          Inr (mb_column
                (''semantic_type'' \<mapsto> YStr ''type/FK'',
                 ''fk_target_table'' \<mapsto> YStr fk_target_table,
                 ''fk_target_field'' \<mapsto> YStr fk_target_field))))))))))
        else Inr mb_column)
      else Inr mb_column)"

fun relationship_tests :: "yaml \<Rightarrow> yaml list \<Rightarrow> mb_column \<Rightarrow> error + mb_column" where
  "relationship_tests column [] mb_column = Inr mb_column"
| "relationship_tests column (test # tests) mb_column =
     bindE (relationship_test column test mb_column) (relationship_tests column tests)"

text \<open>The loop over \<open>_META_FIELDS\<close>.\<close>

fun meta_fields :: "yaml \<Rightarrow> string list \<Rightarrow> mb_column \<Rightarrow> error + mb_column" where
  "meta_fields meta [] mb_column = Inr mb_column"
| "meta_fields meta (field # fields) mb_column =
     bindE (py_contains (''metabase.'' @ field) meta) (\<lambda>found.
     if found then
       bindE (py_getitem meta (''metabase.'' @ field)) (\<lambda>v.
       meta_fields meta fields (mb_column(field \<mapsto> v)))
     else meta_fields meta fields mb_column)"

definition read_column :: "yaml \<Rightarrow> mb_column logged" where
  "read_column column =
     bindL (lift (bindE (py_get column ''name'' (YStr [])) py_upper)) (\<lambda>name.
     bindL (lift (py_get column ''description'' YNull)) (\<lambda>description.
     bindL (lift (bindE (py_get column ''tests'' (YList [])) py_iter)) (\<lambda>tests.
     bindL (lift (relationship_tests column tests
                    [''name'' \<mapsto> YStr name, ''description'' \<mapsto> description])) (\<lambda>mb_column.
     bindL (lift (py_contains ''meta'' column)) (\<lambda>has_meta.
     if has_meta then
       bindL (lift (py_get column ''meta'' (YMap []))) (\<lambda>meta.
       bindL (lift (meta_fields meta META_FIELDS mb_column)) (\<lambda>mb_column.
       bindL (lift (py_contains ''metabase.special_type'' meta)) (\<lambda>deprecated.
       if deprecated then
         bindL (logging WarnDeprecation) (\<lambda>_.
         if mb_column ''semantic_type'' = None then
           bindL (lift (py_getitem meta ''metabase.special_type'')) (\<lambda>v.
           ret (mb_column(''semantic_type'' \<mapsto> v)))
         else ret mb_column)
       else ret mb_column)))
     else ret mb_column)))))"

section \<open>read\_model\<close>

record mb_model =
  name :: string
  description :: yaml
  columns :: "mb_column list"

fun read_columns :: "yaml list \<Rightarrow> mb_column list logged" where
  "read_columns [] = ret []"
| "read_columns (column # rest) =
     bindL (read_column column) (\<lambda>c.
     bindL (read_columns rest) (\<lambda>cs. ret (c # cs)))"

text \<open>
  \<open>model.get("identifier", model["name"])\<close>: the default \<open>model["name"]\<close> is an
  argument of the call, evaluated before the lookup of the identifier.
\<close>

definition identifier_or_name :: "yaml \<Rightarrow> error + yaml" where
  "identifier_or_name model =
     bindE (attr_get model) (\<lambda>items.
     bindE (py_getitem model ''name'') (\<lambda>default.
     Inr (dict_get items ''identifier'' default)))"

definition read_model :: "yaml \<Rightarrow> mb_model logged" where
  "read_model model =
     bindL (lift (bindE (py_get model ''columns'' (YList [])) py_iter)) (\<lambda>cols.
     bindL (read_columns cols) (\<lambda>mb_columns.
     bindL (lift (bindE (identifier_or_name model) py_upper)) (\<lambda>n.
     bindL (lift (py_get model ''description'' YNull)) (\<lambda>d.
     ret \<lparr>name = n, description = d, columns = mb_columns\<rparr>))))"

section \<open>read\_models\<close>

text \<open>
  The files under \<open>models\<close> are given as the list of their paths and parse results, in
  the order of the traversal (a file that \<open>yaml.safe_load\<close> cannot parse is outside this
  model). \<open>includes\<close> and \<open>excludes\<close> are lists of model names.
\<close>

definition selected :: "string list \<Rightarrow> string list \<Rightarrow> yaml \<Rightarrow> bool" where
  "selected includes excludes n =
     ((includes = [] \<or> n \<in> set (map YStr includes)) \<and> n \<notin> set (map YStr excludes))"

text \<open>The loop over the models of a schema, and over the tables of a source.\<close>

fun read_entries ::
  "(yaml \<Rightarrow> log_event) \<Rightarrow> string list \<Rightarrow> string list \<Rightarrow> yaml list \<Rightarrow> mb_model list logged" where
  "read_entries info includes excludes [] = ret []"
| "read_entries info includes excludes (model # rest) =
     bindL (lift (identifier_or_name model)) (\<lambda>n.
     bindL (logging (info n)) (\<lambda>_.
     bindL (if selected includes excludes n
            then bindL (read_model model) (\<lambda>m. ret [m]) else ret []) (\<lambda>ms.
     bindL (read_entries info includes excludes rest) (\<lambda>ms'. ret (ms @ ms')))))"

fun read_sources :: "string list \<Rightarrow> string list \<Rightarrow> yaml list \<Rightarrow> mb_model list logged" where
  "read_sources includes excludes [] = ret []"
| "read_sources includes excludes (source # rest) =
     bindL (lift (bindE (py_get source ''tables'' (YList [])) py_iter)) (\<lambda>tables.
     bindL (read_entries InfoSource includes excludes tables) (\<lambda>ms.
     bindL (read_sources includes excludes rest) (\<lambda>ms'. ret (ms @ ms'))))"

definition read_schema ::
  "string list \<Rightarrow> string list \<Rightarrow> string \<times> yaml \<Rightarrow> mb_model list logged" where
  "read_schema includes excludes file =
     (case file of (path, schema) \<Rightarrow>
        bindL (logging (InfoProcessing path)) (\<lambda>_.
        if schema = YNull then bindL (logging (WarnSkipping path)) (\<lambda>_. ret [])
        else
          bindL (lift (bindE (py_get schema ''models'' (YList [])) py_iter)) (\<lambda>models.
          bindL (read_entries InfoModel includes excludes models) (\<lambda>ms.
          bindL (lift (bindE (py_get schema ''sources'' (YList [])) py_iter)) (\<lambda>sources.
          bindL (read_sources includes excludes sources) (\<lambda>ms'. ret (ms @ ms')))))))"

fun read_schemas ::
  "string list \<Rightarrow> string list \<Rightarrow> (string \<times> yaml) list \<Rightarrow> mb_model list logged" where
  "read_schemas includes excludes [] = ret []"
| "read_schemas includes excludes (file # files) =
     bindL (read_schema includes excludes file) (\<lambda>ms.
     bindL (read_schemas includes excludes files) (\<lambda>ms'. ret (ms @ ms')))"

text \<open>\<open>if names is None: names = []\<close>.\<close>

definition or_empty :: "string list option \<Rightarrow> string list" where
  "or_empty names = (case names of None \<Rightarrow> [] | Some ns \<Rightarrow> ns)"

definition read_models ::
  "(string \<times> yaml) list \<Rightarrow> string list option \<Rightarrow> string list option \<Rightarrow> mb_model list logged" where
  "read_models files includes excludes =
     read_schemas (or_empty includes) (or_empty excludes) files"

section \<open>Vocabulary of the statements\<close>

definition is_str :: "yaml \<Rightarrow> bool" where
  "is_str v = (case v of YStr _ \<Rightarrow> True | _ \<Rightarrow> False)"

definition str_of :: "yaml \<Rightarrow> string" where
  "str_of v = (case v of YStr s \<Rightarrow> s | _ \<Rightarrow> [])"

text \<open>A relationship test: a test that is a mapping with a \<open>relationships\<close> key.\<close>

definition is_relationship_test :: "yaml \<Rightarrow> bool" where
  "is_relationship_test test =
     (case test of YMap kvs \<Rightarrow> ''relationships'' \<in> set (map fst kvs) | _ \<Rightarrow> False)"

text \<open>The values a loop \<open>for x in v.get(k, [])\<close> visits.\<close>

definition items :: "yaml \<Rightarrow> string \<Rightarrow> yaml list" where
  "items v k = (case bindE (py_get v k (YList [])) py_iter of Inr xs \<Rightarrow> xs | Inl _ \<Rightarrow> [])"

text \<open>The value under a key of a mapping (nothing for any other value).\<close>

definition lookup :: "yaml \<Rightarrow> string \<Rightarrow> yaml option" where
  "lookup v k = (case v of YMap m \<Rightarrow> map_of m k | _ \<Rightarrow> None)"

text \<open>The value of a key of the column's \<open>meta\<close> mapping.\<close>

definition annotation :: "yaml \<Rightarrow> string \<Rightarrow> yaml option" where
  "annotation column k =
     (case lookup column ''meta'' of Some meta \<Rightarrow> lookup meta k | None \<Rightarrow> None)"

text \<open>
  Shapes of the raw declaration. In a typed test the value under \<open>relationships\<close> is a
  mapping whose \<open>to\<close> and \<open>field\<close>, where present, are strings; in a complete test
  both are present. A typed column has a string name (or none), a list of typed tests
  (or none) and a \<open>meta\<close> mapping (or none) whose \<open>metabase.fk_ref\<close>, where present,
  is a string.
\<close>

definition typed_test :: "yaml \<Rightarrow> bool" where
  "typed_test test =
     (case py_getitem test ''relationships'' of
        Inr (YMap r) \<Rightarrow>
          is_str (dict_get r ''to'' (YStr [])) \<and> is_str (dict_get r ''field'' (YStr []))
      | Inr _ \<Rightarrow> False
      | Inl _ \<Rightarrow> True)"

definition complete_test :: "yaml \<Rightarrow> bool" where
  "complete_test test =
     (case py_getitem test ''relationships'' of
        Inr (YMap r) \<Rightarrow>
          is_str (dict_get r ''to'' YNull) \<and> is_str (dict_get r ''field'' YNull)
      | Inr _ \<Rightarrow> False
      | Inl _ \<Rightarrow> True)"

definition typed_column :: "(string \<times> yaml) list \<Rightarrow> bool" where
  "typed_column kvs =
     (is_str (dict_get kvs ''name'' (YStr [])) \<and>
      (case dict_get kvs ''tests'' (YList []) of
         YList tests \<Rightarrow> list_all typed_test tests
       | _ \<Rightarrow> False) \<and>
      (case dict_get kvs ''meta'' (YMap []) of
         YMap m \<Rightarrow> is_str (dict_get m ''metabase.fk_ref'' (YStr []))
       | _ \<Rightarrow> False))"

text \<open>
  The model and source-table entries of the scanned files, in the order \<open>read_models\<close>
  meets them: per file, the models, then the tables of each source.
\<close>

definition schema_entries :: "yaml \<Rightarrow> yaml list" where
  "schema_entries schema =
     (if schema = YNull then []
      else items schema ''models'' @
           concat (map (\<lambda>source. items source ''tables'') (items schema ''sources'')))"

definition entries :: "(string \<times> yaml) list \<Rightarrow> yaml list" where
  "entries files = concat (map (\<lambda>file. schema_entries (snd file)) files)"

text \<open>An entry that the filter of \<open>read_models\<close> lets through.\<close>

definition kept :: "string list \<Rightarrow> string list \<Rightarrow> yaml \<Rightarrow> bool" where
  "kept inc exc e = (\<exists>n. identifier_or_name e = Inr n \<and> selected inc exc n)"

text \<open>A field of the column a call returned (nothing when the call failed).\<close>

definition field_of :: "mb_column logged \<Rightarrow> string \<Rightarrow> yaml option" where
  "field_of r k = (case snd r of Inr mb_column \<Rightarrow> mb_column k | Inl _ \<Rightarrow> None)"

section \<open>Example declarations\<close>

text \<open>
  The column of the end-to-end scenario: \<open>customer_id\<close> with the test
  \<open>{relationships: {to: "ref('orders')", field: "customer_id"}}\<close>.
\<close>

definition customer_id_declaration :: "(string \<times> yaml) list" where
  "customer_id_declaration =
     [(''name'', YStr ''customer_id''),
      (''tests'', YList [YStr ''not_null'',
         YMap [(''relationships'',
           YMap [(''to'', YStr ''ref('orders')''),
                 (''field'', YStr ''customer_id'')])]])]"

definition customer_id_column :: yaml where
  "customer_id_column = YMap customer_id_declaration"

definition customer_id_result :: mb_column where
  "customer_id_result =
     [''name'' \<mapsto> YStr ''CUSTOMER_ID'', ''description'' \<mapsto> YNull,
      ''semantic_type'' \<mapsto> YStr ''type/FK'', ''fk_target_table'' \<mapsto> YStr ''ORDERS'',
      ''fk_target_field'' \<mapsto> YStr ''CUSTOMER_ID'']"

text \<open>
  A column with a relationship test and all three \<open>metabase.*\<close> type annotations.
\<close>

definition annotated_column :: yaml where
  "annotated_column =
     YMap [(''name'', YStr ''status''),
           (''tests'', YList [
              YMap [(''relationships'',
                YMap [(''to'', YStr ''ref('orders')''), (''field'', YStr ''status'')])]]),
           (''meta'', YMap [(''metabase.semantic_type'', YStr ''type/Category''),
                            (''metabase.visibility_type'', YStr ''sensitive''),
                            (''metabase.special_type'', YStr ''type/Name'')])]"

definition annotated_result :: mb_column where
  "annotated_result =
     [''name'' \<mapsto> YStr ''STATUS'', ''description'' \<mapsto> YNull,
      ''fk_target_table'' \<mapsto> YStr ''ORDERS'', ''fk_target_field'' \<mapsto> YStr ''STATUS'',
      ''semantic_type'' \<mapsto> YStr ''type/Category'',
      ''visibility_type'' \<mapsto> YStr ''sensitive'']"

text \<open>
  The column of the end-to-end scenario of the deprecated key: no test, and
  \<open>meta: {metabase.special_type: "type/Category"}\<close>.
\<close>

definition deprecated_column :: yaml where
  "deprecated_column =
     YMap [(''name'', YStr ''status''),
           (''meta'', YMap [(''metabase.special_type'', YStr ''type/Category'')])]"

definition deprecated_result :: mb_column where
  "deprecated_result =
     [''name'' \<mapsto> YStr ''STATUS'', ''description'' \<mapsto> YNull,
      ''semantic_type'' \<mapsto> YStr ''type/Category'']"

text \<open>A column with two relationship tests, to \<open>orders\<close> and then to \<open>payments\<close>.\<close>

definition two_relationships_declaration :: "(string \<times> yaml) list" where
  "two_relationships_declaration =
     [(''name'', YStr ''ref_id''),
      (''tests'', YList [
         YMap [(''relationships'',
           YMap [(''to'', YStr ''ref('orders')''), (''field'', YStr ''id'')])],
         YMap [(''relationships'',
           YMap [(''to'', YStr ''ref('payments')''), (''field'', YStr ''payment_id'')])]])]"

definition two_relationships_result :: mb_column where
  "two_relationships_result =
     [''name'' \<mapsto> YStr ''REF_ID'', ''description'' \<mapsto> YNull,
      ''semantic_type'' \<mapsto> YStr ''type/FK'', ''fk_target_table'' \<mapsto> YStr ''PAYMENTS'',
      ''fk_target_field'' \<mapsto> YStr ''PAYMENT_ID'']"

text \<open>
  A column whose relationship test has no \<open>to\<close>, with a \<open>metabase.fk_ref\<close> override.
\<close>

definition missing_to_declaration :: "(string \<times> yaml) list" where
  "missing_to_declaration =
     [(''name'', YStr ''customer_id''),
      (''tests'', YList [
         YMap [(''relationships'', YMap [(''field'', YStr ''customer_id'')])]]),
      (''meta'', YMap [(''metabase.fk_ref'', YStr ''orders'')])]"

text \<open>Schema files, each with one model without columns, and the models read from them.\<close>

definition customers_file :: "string \<times> yaml" where
  "customers_file =
     (''models/customers.yml'', YMap [(''models'', YList [YMap [(''name'', YStr ''customers'')]])])"

definition orders_file :: "string \<times> yaml" where
  "orders_file =
     (''models/orders.yml'', YMap [(''models'', YList [YMap [(''name'', YStr ''orders'')]])])"

definition customers_model :: mb_model where
  "customers_model = \<lparr>name = ''CUSTOMERS'', description = YNull, columns = []\<rparr>"

definition orders_model :: mb_model where
  "orders_model = \<lparr>name = ''ORDERS'', description = YNull, columns = []\<rparr>"

text \<open>
  A schema file with three models and one source table; the table's identifier is
  \<open>orders_raw\<close>.
\<close>

definition shop_file :: "string \<times> yaml" where
  "shop_file =
     (''models/schema.yml'',
      YMap [(''models'', YList [YMap [(''name'', YStr ''customers'')],
                                YMap [(''name'', YStr ''orders'')],
                                YMap [(''name'', YStr ''payments'')]]),
            (''sources'', YList [YMap [(''name'', YStr ''raw''),
               (''tables'', YList [YMap [(''name'', YStr ''raw_orders''),
                                         (''identifier'', YStr ''orders_raw'')]])]])])"

text \<open>A schema file whose first model is declared as \<open>Orders\<close>, with a capital.\<close>

definition capital_file :: "string \<times> yaml" where
  "capital_file =
     (''models/schema.yml'',
      YMap [(''models'', YList [YMap [(''name'', YStr ''Orders'')],
                                YMap [(''name'', YStr ''customers'')]])])"

section \<open>Properties of parse\_ref\<close>

lemma paren_not_name_char: "\<not> is_name_char (CHR ''('')"
  by (simp add: is_name_char_def is_word_def)

lemma match_at_group: "match_at s = Some (g, n) \<Longrightarrow> \<forall>c\<in>set g. is_name_char c"
  by (auto simp: match_at_def Let_def split: if_splits list.splits dest: set_takeWhileD)

lemma match_at_needs_paren:
  assumes "CHR ''('' \<notin> set s"
  shows "match_at s = None"
proof -
  have "take 4 s \<noteq> ''ref(''"
  proof
    assume "take 4 s = ''ref(''"
    then have "CHR ''('' \<in> set (take 4 s)" by simp
    then show False using assms by (meson in_set_takeD)
  qed
  then show ?thesis by (simp add: match_at_def)
qed

lemma findall_from_groups:
  "g \<in> set (findall_from k s) \<Longrightarrow> \<forall>c\<in>set g. is_name_char c"
proof (induction k s rule: findall_from.induct)
  case (1 skip)
  then show ?case by simp
next
  case (2 skip c cs)
  then show ?case
    by (auto split: if_splits option.splits dest: match_at_group)
qed

lemma findall_from_no_paren: "CHR ''('' \<notin> set s \<Longrightarrow> findall_from k s = []"
proof (induction s arbitrary: k)
  case Nil
  then show ?case by simp
next
  case (Cons c cs)
  then have "match_at (c # cs) = None" by (intro match_at_needs_paren) simp
  with Cons show ?case by simp
qed

lemma parse_ref_cases:
  "parse_ref t = t \<or> (findall t \<noteq> [] \<and> (\<forall>c\<in>set (parse_ref t). is_name_char c))"
proof (cases "findall t")
  case Nil
  then show ?thesis by (simp add: parse_ref_def)
next
  case (Cons g gs)
  then have "g \<in> set (findall_from 0 t)" by (simp add: findall_def)
  then have "\<forall>c\<in>set g. is_name_char c" by (rule findall_from_groups)
  then show ?thesis using Cons by (simp add: parse_ref_def)
qed

lemma parse_ref_name: "\<forall>c\<in>set g. is_name_char c \<Longrightarrow> parse_ref g = g"
proof -
  assume "\<forall>c\<in>set g. is_name_char c"
  then have "CHR ''('' \<notin> set g" using paren_not_name_char by blast
  then have "findall g = []" by (simp add: findall_def findall_from_no_paren)
  then show ?thesis by (simp add: parse_ref_def)
qed

text \<open>
  C8. \<open>parse_ref\<close> is a total function of its text (no input makes it fail); its result
  is either the text unchanged or a captured name made of word characters, spaces,
  underscores and hyphens only; and parsing the result again gives the same string.
\<close>

theorem parse_ref_idempotent:
  "parse_ref (parse_ref t) = parse_ref t \<and>
   (parse_ref t = t \<or> (\<forall>c\<in>set (parse_ref t). is_name_char c))"
  using parse_ref_cases [of t] parse_ref_name [of "parse_ref t"] by auto

theorem parse_ref_idempotent_witness:
  "parse_ref (parse_ref ''{{ ref('my-orders') }}'') = ''my-orders'' \<and>
   parse_ref ''{{ ref('my-orders') }}'' = ''my-orders'' \<and>
   parse_ref (parse_ref ''orders'') = ''orders''"
proof -
  have a: "parse_ref ''{{ ref('my-orders') }}'' = ''my-orders''" by code_simp
  have b: "parse_ref ''orders'' = ''orders''" by code_simp
  show ?thesis
    using parse_ref_idempotent [of "''{{ ref('my-orders') }}''"]
      parse_ref_idempotent [of "''orders''"] a b by simp
qed

section \<open>Properties of read\_column\<close>

lemma bindE_simps [simp]:
  "bindE (Inl e) f = Inl e" "bindE (Inr x) f = f x"
  by (simp_all add: bindE_def)

lemma bindE_Inr: "bindE m f = Inr y \<longleftrightarrow> (\<exists>x. m = Inr x \<and> f x = Inr y)"
  by (cases m) simp_all

lemma bindL_simps [simp]:
  "bindL (l, Inl e) f = (l, Inl e)"
  "bindL (ret x) f = f x"
  "bindL (lift (Inr x)) f = f x"
  "bindL (lift (Inl e)) f = ([], Inl e)"
  by (simp_all add: bindL_def ret_def lift_def split: prod.splits)

lemma bindL_logging [simp]: "bindL (logging ev) g = (ev # fst (g ()), snd (g ()))"
  by (simp add: bindL_def logging_def split: prod.splits)

lemma bindL_Inr:
  "bindL m f = (l, Inr y) \<longleftrightarrow>
     (\<exists>l1 x l2. m = (l1, Inr x) \<and> f x = (l2, Inr y) \<and> l = l1 @ l2)"
  by (cases m; cases "snd m") (auto simp: bindL_def split: prod.splits)

lemma relationship_tests_append:
  "relationship_tests column (ts @ us) mb =
     bindE (relationship_tests column ts mb) (relationship_tests column us)"
  by (induction ts arbitrary: mb) (auto simp: bindE_def split: sum.splits)

lemma not_relationship_test:
  "\<not> is_relationship_test t \<Longrightarrow> relationship_test column t mb = Inr mb"
  by (auto simp: relationship_test_def is_relationship_test_def is_dict_def py_contains_def
      split: yaml.splits)

lemma no_relationship_tests:
  "\<forall>t\<in>set ts. \<not> is_relationship_test t \<Longrightarrow> relationship_tests column ts mb = Inr mb"
  by (induction ts) (simp_all add: not_relationship_test)

lemma relationship_test_Inr:
  assumes "is_relationship_test t" and "relationship_test column t mb = Inr mb'"
  shows "\<exists>a b. \<forall>mb0. relationship_test column t mb0 =
           Inr (mb0(''semantic_type'' \<mapsto> YStr ''type/FK'',
                    ''fk_target_table'' \<mapsto> YStr a, ''fk_target_field'' \<mapsto> YStr b))"
proof -
  from assms(1) obtain kvs where t: "t = YMap kvs" and k: "''relationships'' \<in> set (map fst kvs)"
    by (auto simp: is_relationship_test_def split: yaml.splits)
  from assms(2) show ?thesis
    unfolding t relationship_test_def using k
    by (simp add: is_dict_def py_contains_def bindE_Inr) blast
qed

lemma fk_updates_absorb:
  "(mb(''semantic_type'' \<mapsto> s, ''fk_target_table'' \<mapsto> a, ''fk_target_field'' \<mapsto> b))
      (''semantic_type'' \<mapsto> s', ''fk_target_table'' \<mapsto> a', ''fk_target_field'' \<mapsto> b') =
   mb(''semantic_type'' \<mapsto> s', ''fk_target_table'' \<mapsto> a', ''fk_target_field'' \<mapsto> b')"
  by (rule ext) simp

lemma relationship_tests_frame:
  "relationship_tests column ts mb = Inr mb' \<Longrightarrow>
     mb' = mb \<or> (\<exists>a b. mb' = mb(''semantic_type'' \<mapsto> YStr ''type/FK'',
                    ''fk_target_table'' \<mapsto> YStr a, ''fk_target_field'' \<mapsto> YStr b))"
proof (induction ts arbitrary: mb)
  case Nil
  then show ?case by simp
next
  case (Cons t ts)
  from Cons.prems obtain mb1 where
    s: "relationship_test column t mb = Inr mb1" and r: "relationship_tests column ts mb1 = Inr mb'"
    by (auto simp: bindE_Inr)
  have 1: "mb1 = mb \<or> (\<exists>a b. mb1 = mb(''semantic_type'' \<mapsto> YStr ''type/FK'',
                    ''fk_target_table'' \<mapsto> YStr a, ''fk_target_field'' \<mapsto> YStr b))"
  proof (cases "is_relationship_test t")
    case True
    from relationship_test_Inr [OF True s] obtain a b where
      "relationship_test column t mb =
         Inr (mb(''semantic_type'' \<mapsto> YStr ''type/FK'',
                 ''fk_target_table'' \<mapsto> YStr a, ''fk_target_field'' \<mapsto> YStr b))"
      by blast
    with s have "mb1 = mb(''semantic_type'' \<mapsto> YStr ''type/FK'',
                 ''fk_target_table'' \<mapsto> YStr a, ''fk_target_field'' \<mapsto> YStr b)"
      by simp
    then show ?thesis by blast
  next
    case False
    then show ?thesis using s by (simp add: not_relationship_test)
  qed
  from Cons.IH [OF r] 1 show ?case
    by (elim disjE exE) (simp_all only: fk_updates_absorb, blast+)
qed

lemma last_relationship_test:
  assumes "is_relationship_test t" and "\<forall>x\<in>set ts2. \<not> is_relationship_test x"
  shows "last (filter is_relationship_test (ts1 @ t # ts2)) = t"
proof -
  have "filter is_relationship_test ts2 = []" using assms(2) by (simp add: filter_empty_conv)
  then show ?thesis using assms(1) by simp
qed

lemma relationship_tests_last:
  assumes "relationship_tests column ts mb = Inr mb'"
    and "\<exists>t\<in>set ts. is_relationship_test t"
  shows "relationship_test column (last (filter is_relationship_test ts)) mb = Inr mb'"
proof -
  from split_list_last_prop [OF assms(2)] obtain ts1 t ts2 where
    ts: "ts = ts1 @ t # ts2" and t: "is_relationship_test t"
    and ts2: "\<forall>x\<in>set ts2. \<not> is_relationship_test x"
    by blast
  have l: "last (filter is_relationship_test ts) = t"
    unfolding ts using t ts2 by (rule last_relationship_test)
  from assms(1) obtain mb1 mb2 where
    1: "relationship_tests column ts1 mb = Inr mb1"
    and 2: "relationship_test column t mb1 = Inr mb2"
    and 3: "relationship_tests column ts2 mb2 = Inr mb'"
    unfolding ts by (auto simp: relationship_tests_append bindE_Inr)
  from 3 ts2 have mb': "mb' = mb2" by (simp add: no_relationship_tests)
  from relationship_test_Inr [OF t 2] obtain a b where
    ab: "\<And>mb0. relationship_test column t mb0 =
           Inr (mb0(''semantic_type'' \<mapsto> YStr ''type/FK'',
                    ''fk_target_table'' \<mapsto> YStr a, ''fk_target_field'' \<mapsto> YStr b))"
    by blast
  from relationship_tests_frame [OF 1] have
    "mb1(''semantic_type'' \<mapsto> YStr ''type/FK'',
         ''fk_target_table'' \<mapsto> YStr a, ''fk_target_field'' \<mapsto> YStr b) =
     mb(''semantic_type'' \<mapsto> YStr ''type/FK'',
         ''fk_target_table'' \<mapsto> YStr a, ''fk_target_field'' \<mapsto> YStr b)"
    by (elim disjE exE) (simp_all only: fk_updates_absorb)
  with 2 ab mb' l show ?thesis by simp
qed


lemma lift_eq [simp]: "lift r = (l, r') \<longleftrightarrow> l = [] \<and> r = r'"
  by (auto simp: lift_def)

lemma ret_eq [simp]: "ret x = (l, r) \<longleftrightarrow> l = [] \<and> r = Inr x"
  by (auto simp: ret_def)

lemma ret_proj [simp]: "fst (ret x) = []" "snd (ret x) = Inr x"
  by (simp_all add: ret_def)

lemma map_of_fst: "k \<in> fst ` set kvs \<longleftrightarrow> map_of kvs k \<noteq> None"
  by (simp add: map_of_eq_None_iff)

lemma contains_getitem:
  assumes "py_contains k meta = Inr found"
    and "found \<Longrightarrow> py_getitem meta k = Inr v"
  shows "lookup meta k = (if found then Some v else None)"
  using assms
  by (cases meta) (auto simp: py_contains_def py_getitem_def lookup_def map_of_fst
      split: option.splits if_splits)

lemma contains_lookup:
  assumes "py_contains k meta = Inr False"
  shows "lookup meta k = None"
  using assms
  by (cases meta) (auto simp: py_contains_def lookup_def map_of_fst)

lemma meta_fields_step:
  assumes "meta_fields meta (f # fs) mb = Inr mb'"
  shows "meta_fields meta fs
           (case lookup meta (''metabase.'' @ f) of Some v \<Rightarrow> mb(f \<mapsto> v) | None \<Rightarrow> mb) = Inr mb'"
proof (cases "py_contains (''metabase.'' @ f) meta")
  case (Inl e)
  with assms show ?thesis by simp
next
  case (Inr found)
  show ?thesis
  proof (cases found)
    case True
    with Inr assms obtain v where v: "py_getitem meta (''metabase.'' @ f) = Inr v"
      and r: "meta_fields meta fs (mb(f \<mapsto> v)) = Inr mb'"
      by (auto simp: bindE_Inr)
    from contains_getitem [OF Inr] v True have "lookup meta (''metabase.'' @ f) = Some v"
      by simp
    with r show ?thesis by simp
  next
    case False
    with Inr assms have r: "meta_fields meta fs mb = Inr mb'" by simp
    from contains_lookup Inr False have "lookup meta (''metabase.'' @ f) = None" by simp
    with r show ?thesis by simp
  qed
qed

lemma meta_fields_Inr:
  assumes "meta_fields meta META_FIELDS mb = Inr mb'"
  shows "mb' ''semantic_type'' =
           (case lookup meta ''metabase.semantic_type'' of Some v \<Rightarrow> Some v
            | None \<Rightarrow> mb ''semantic_type'')"
    and "mb' ''visibility_type'' =
           (case lookup meta ''metabase.visibility_type'' of Some v \<Rightarrow> Some v
            | None \<Rightarrow> mb ''visibility_type'')"
    and "k \<noteq> ''semantic_type'' \<Longrightarrow> k \<noteq> ''visibility_type'' \<Longrightarrow> mb' k = mb k"
proof -
  from assms have "meta_fields meta [''visibility_type'']
      (case lookup meta ''metabase.semantic_type'' of
         Some v \<Rightarrow> mb(''semantic_type'' \<mapsto> v) | None \<Rightarrow> mb) = Inr mb'"
    unfolding META_FIELDS_def by (drule_tac meta_fields_step) simp
  then have "meta_fields meta []
      (case lookup meta ''metabase.visibility_type'' of
         Some w \<Rightarrow> (case lookup meta ''metabase.semantic_type'' of
             Some v \<Rightarrow> mb(''semantic_type'' \<mapsto> v) | None \<Rightarrow> mb)(''visibility_type'' \<mapsto> w)
       | None \<Rightarrow> (case lookup meta ''metabase.semantic_type'' of
             Some v \<Rightarrow> mb(''semantic_type'' \<mapsto> v) | None \<Rightarrow> mb)) = Inr mb'"
    by (drule_tac meta_fields_step) simp
  then have mb': "mb' = (case lookup meta ''metabase.visibility_type'' of
         Some w \<Rightarrow> (case lookup meta ''metabase.semantic_type'' of
             Some v \<Rightarrow> mb(''semantic_type'' \<mapsto> v) | None \<Rightarrow> mb)(''visibility_type'' \<mapsto> w)
       | None \<Rightarrow> (case lookup meta ''metabase.semantic_type'' of
             Some v \<Rightarrow> mb(''semantic_type'' \<mapsto> v) | None \<Rightarrow> mb))"
    by simp
  show "mb' ''semantic_type'' =
           (case lookup meta ''metabase.semantic_type'' of Some v \<Rightarrow> Some v
            | None \<Rightarrow> mb ''semantic_type'')"
    unfolding mb' by (simp split: option.splits)
  show "mb' ''visibility_type'' =
           (case lookup meta ''metabase.visibility_type'' of Some v \<Rightarrow> Some v
            | None \<Rightarrow> mb ''visibility_type'')"
    unfolding mb' by (simp split: option.splits)
  show "k \<noteq> ''semantic_type'' \<Longrightarrow> k \<noteq> ''visibility_type'' \<Longrightarrow> mb' k = mb k"
    unfolding mb' by (simp split: option.splits)
qed


lemma py_get_Inr: "py_get v k d = Inr x \<longleftrightarrow> (\<exists>kvs. v = YMap kvs \<and> x = dict_get kvs k d)"
  by (cases v) (auto simp: py_get_def attr_get_def)

lemma py_upper_Inr: "py_upper v = Inr s \<longleftrightarrow> (\<exists>t. v = YStr t \<and> s = upper t)"
  by (cases v) (auto simp: py_upper_def)

lemma contains_dict:
  assumes "py_contains k meta = Inr True" and "is_dict meta"
  shows "lookup meta k \<noteq> None"
  using assms
  by (cases meta) (auto simp: py_contains_def lookup_def is_dict_def map_of_fst)

lemma lookup_dict: "lookup meta k = Some v \<Longrightarrow> is_dict meta"
  by (cases meta) (auto simp: lookup_def is_dict_def)

lemma relationship_test_meta:
  assumes "is_relationship_test t" and "relationship_test column t mb = Inr mb'"
  shows "\<exists>meta. py_get column ''meta'' (YMap []) = Inr meta \<and> is_dict meta"
proof -
  from assms(1) obtain kvs where t: "t = YMap kvs" and k: "''relationships'' \<in> set (map fst kvs)"
    by (auto simp: is_relationship_test_def split: yaml.splits)
  from assms(2) obtain meta items where "py_get column ''meta'' (YMap []) = Inr meta"
    and "attr_get meta = Inr items"
    unfolding t relationship_test_def using k
    by (auto simp: is_dict_def py_contains_def bindE_Inr)
  then show ?thesis by (cases meta) (auto simp: attr_get_def is_dict_def)
qed

lemma relationship_tests_meta:
  assumes "relationship_tests column ts mb = Inr mb'" and "mb' \<noteq> mb"
  shows "\<exists>meta. py_get column ''meta'' (YMap []) = Inr meta \<and> is_dict meta"
proof -
  have ex: "\<exists>t\<in>set ts. is_relationship_test t"
    using assms no_relationship_tests [of ts column mb] by auto
  from split_list_last_prop [OF ex] obtain ts1 t ts2 where
    ts: "ts = ts1 @ t # ts2" and t: "is_relationship_test t"
    by blast
  have "last (filter is_relationship_test ts) \<in> set (filter is_relationship_test ts)"
    using ex by (intro last_in_set) (auto simp: filter_empty_conv)
  then have "is_relationship_test (last (filter is_relationship_test ts))" by simp
  then show ?thesis
    using relationship_tests_last [OF assms(1) ex] by (rule relationship_test_meta)
qed

lemma read_column_Inr:
  assumes "read_column column = (l, Inr mb)"
  obtains kvs n mb1 where
    "column = YMap kvs"
    and "dict_get kvs ''name'' (YStr []) = YStr n"
    and "relationship_tests column (items column ''tests'')
           [''name'' \<mapsto> YStr (upper n), ''description'' \<mapsto> dict_get kvs ''description'' YNull]
         = Inr mb1"
    and "\<forall>k. k \<noteq> ''semantic_type'' \<longrightarrow> k \<noteq> ''visibility_type'' \<longrightarrow> mb k = mb1 k"
    and "mb ''visibility_type'' =
           (case annotation column ''metabase.visibility_type'' of
              Some v \<Rightarrow> Some v | None \<Rightarrow> mb1 ''visibility_type'')"
    and "mb ''semantic_type'' =
           (case annotation column ''metabase.semantic_type'' of
              Some v \<Rightarrow> Some v
            | None \<Rightarrow> (case mb1 ''semantic_type'' of
                         Some v \<Rightarrow> Some v
                       | None \<Rightarrow> annotation column ''metabase.special_type''))"
    and "l = (if annotation column ''metabase.special_type'' = None then []
              else [WarnDeprecation])"
proof -
  from assms obtain nm d ts mb1 has_meta l2 where
    nm: "bindE (py_get column ''name'' (YStr [])) py_upper = Inr nm"
    and d: "py_get column ''description'' YNull = Inr d"
    and ts: "bindE (py_get column ''tests'' (YList [])) py_iter = Inr ts"
    and loop: "relationship_tests column ts [''name'' \<mapsto> YStr nm, ''description'' \<mapsto> d] = Inr mb1"
    and hm: "py_contains ''meta'' column = Inr has_meta"
    and rest: "(if has_meta then
       bindL (lift (py_get column ''meta'' (YMap []))) (\<lambda>meta.
       bindL (lift (meta_fields meta META_FIELDS mb1)) (\<lambda>mb_column.
       bindL (lift (py_contains ''metabase.special_type'' meta)) (\<lambda>deprecated.
       if deprecated then
         bindL (logging WarnDeprecation) (\<lambda>_.
         if mb_column ''semantic_type'' = None then
           bindL (lift (py_getitem meta ''metabase.special_type'')) (\<lambda>v.
           ret (mb_column(''semantic_type'' \<mapsto> v)))
         else ret mb_column)
       else ret mb_column)))
     else ret mb1) = (l, Inr mb)"
    unfolding read_column_def by (auto simp: bindL_Inr)
  from nm obtain kvs n where col: "column = YMap kvs"
    and n: "dict_get kvs ''name'' (YStr []) = YStr n" and nm': "nm = upper n"
    by (auto simp: bindE_Inr py_get_Inr py_upper_Inr)
  from d col have d': "d = dict_get kvs ''description'' YNull" by (simp add: py_get_Inr)
  from ts have ts': "items column ''tests'' = ts" by (simp add: items_def)
  from hm col have hm': "has_meta = (map_of kvs ''meta'' \<noteq> None)"
    by (simp add: py_contains_def map_of_fst)
  show thesis
  proof (cases has_meta)
    case False
    with rest have "l = []" "mb = mb1" by simp_all
    moreover from False hm' col have "\<And>k. annotation column k = None"
      by (simp add: annotation_def lookup_def)
    ultimately show thesis
      using that [OF col n] loop nm' d' ts' by (simp split: option.splits)
  next
    case True
    with hm' obtain meta where meta: "map_of kvs ''meta'' = Some meta" by auto
    then have ann: "\<And>k. annotation column k = lookup meta k"
      using col by (simp add: annotation_def lookup_def)
    from True rest meta col obtain mb2 dep l3 where
      mf: "meta_fields meta META_FIELDS mb1 = Inr mb2"
      and dep: "py_contains ''metabase.special_type'' meta = Inr dep"
      and fin: "(if dep then
         bindL (logging WarnDeprecation) (\<lambda>_.
         if mb2 ''semantic_type'' = None then
           bindL (lift (py_getitem meta ''metabase.special_type'')) (\<lambda>v.
           ret (mb2(''semantic_type'' \<mapsto> v)))
         else ret mb2)
       else ret mb2) = (l, Inr mb)"
      by (auto simp: bindL_Inr py_get_Inr dict_get_def)
    note m = meta_fields_Inr [OF mf]
    show thesis
    proof (cases dep)
      case False
      with fin have "l = []" "mb = mb2" by simp_all
      moreover from False dep have "lookup meta ''metabase.special_type'' = None"
        by (simp add: contains_lookup)
      ultimately show thesis
        using that [OF col n] loop nm' d' ts' m ann by (simp split: option.splits)
    next
      case True
      with fin have l: "l = WarnDeprecation # fst (if mb2 ''semantic_type'' = None then
           bindL (lift (py_getitem meta ''metabase.special_type'')) (\<lambda>v.
           ret (mb2(''semantic_type'' \<mapsto> v))) else ret mb2)"
        and r: "snd (if mb2 ''semantic_type'' = None then
           bindL (lift (py_getitem meta ''metabase.special_type'')) (\<lambda>v.
           ret (mb2(''semantic_type'' \<mapsto> v))) else ret mb2) = Inr mb"
        by simp_all
      show thesis
      proof (cases "mb2 ''semantic_type''")
        case None
        with r obtain v where v: "py_getitem meta ''metabase.special_type'' = Inr v"
          and mb: "mb = mb2(''semantic_type'' \<mapsto> v)"
          by (cases "py_getitem meta ''metabase.special_type''") auto
        from None l v have l': "l = [WarnDeprecation]" by simp
        from contains_getitem [OF dep] v True
        have sp: "lookup meta ''metabase.special_type'' = Some v" by simp
        from None m(1) have "lookup meta ''metabase.semantic_type'' = None"
          and "mb1 ''semantic_type'' = None"
          by (auto split: option.splits)
        then show thesis
          using that [OF col n] loop nm' d' ts' m ann mb l' sp by (simp split: option.splits)
      next
        case (Some s)
        with r l have mb: "mb = mb2" and l': "l = [WarnDeprecation]" by simp_all
        have "is_dict meta"
        proof (cases "lookup meta ''metabase.semantic_type''")
          case None
          with Some m(1) have "mb1 ''semantic_type'' \<noteq> None" by simp
          then have "mb1 \<noteq> [''name'' \<mapsto> YStr nm, ''description'' \<mapsto> d]" by auto
          from relationship_tests_meta [OF loop this] col meta show ?thesis
            by (simp add: py_get_Inr dict_get_def)
        next
          case (Some a)
          then show ?thesis by (rule lookup_dict)
        qed
        with dep True have sp: "lookup meta ''metabase.special_type'' \<noteq> None"
          by (simp add: contains_dict)
        have 1: "mb ''semantic_type'' =
           (case annotation column ''metabase.semantic_type'' of
              Some v \<Rightarrow> Some v
            | None \<Rightarrow> (case mb1 ''semantic_type'' of
                         Some v \<Rightarrow> Some v
                       | None \<Rightarrow> annotation column ''metabase.special_type''))"
          using m(1) ann mb Some by (cases "mb1 ''semantic_type''") (simp_all split: option.splits)
        have 2: "mb ''visibility_type'' =
           (case annotation column ''metabase.visibility_type'' of
              Some v \<Rightarrow> Some v | None \<Rightarrow> mb1 ''visibility_type'')"
          using m(2) ann mb by simp
        have 3: "l = (if annotation column ''metabase.special_type'' = None then []
              else [WarnDeprecation])"
          using l' sp ann by simp
        have 4: "\<forall>k. k \<noteq> ''semantic_type'' \<longrightarrow> k \<noteq> ''visibility_type'' \<longrightarrow> mb k = mb1 k"
          using m(3) mb by simp
        from loop have 5: "relationship_tests column (items column ''tests'')
           [''name'' \<mapsto> YStr (upper n), ''description'' \<mapsto> dict_get kvs ''description'' YNull]
           = Inr mb1"
          using nm' d' ts' by simp
        show thesis by (rule that [OF col n 5 4 2 1 3])
      qed
    qed
  qed
qed


lemma relationship_tests_result:
  assumes "relationship_tests column ts mb = Inr mb'"
  shows "if \<exists>t\<in>set ts. is_relationship_test t
         then \<exists>a b. mb' = mb(''semantic_type'' \<mapsto> YStr ''type/FK'',
                  ''fk_target_table'' \<mapsto> YStr a, ''fk_target_field'' \<mapsto> YStr b)
         else mb' = mb"
proof (cases "\<exists>t\<in>set ts. is_relationship_test t")
  case True
  then have "last (filter is_relationship_test ts) \<in> set (filter is_relationship_test ts)"
    by (intro last_in_set) (auto simp: filter_empty_conv)
  then have r: "is_relationship_test (last (filter is_relationship_test ts))" by simp
  note step = relationship_tests_last [OF assms True]
  from relationship_test_Inr [OF r step] obtain a b where
    "relationship_test column (last (filter is_relationship_test ts)) mb =
       Inr (mb(''semantic_type'' \<mapsto> YStr ''type/FK'',
               ''fk_target_table'' \<mapsto> YStr a, ''fk_target_field'' \<mapsto> YStr b))"
    by blast
  with step have "mb' = mb(''semantic_type'' \<mapsto> YStr ''type/FK'',
               ''fk_target_table'' \<mapsto> YStr a, ''fk_target_field'' \<mapsto> YStr b)"
    by simp
  then have "\<exists>a b. mb' = mb(''semantic_type'' \<mapsto> YStr ''type/FK'',
               ''fk_target_table'' \<mapsto> YStr a, ''fk_target_field'' \<mapsto> YStr b)"
    by blast
  with True show ?thesis by simp
next
  case False
  with assms show ?thesis by (simp add: no_relationship_tests)
qed

lemmas eval_defs = read_column_def relationship_test_def py_get_def attr_get_def dict_get_def
  py_upper_def py_iter_def py_contains_def py_getitem_def py_parse_ref_def is_dict_def
  META_FIELDS_def

lemma read_customer_id_column: "read_column customer_id_column = ([], Inr customer_id_result)"
proof -
  have u: "upper ''customer_id'' = ''CUSTOMER_ID''" "upper ''orders'' = ''ORDERS''"
    by code_simp+
  have p: "parse_ref ''ref('orders')'' = ''orders''" by code_simp
  show ?thesis
    by (simp add: customer_id_column_def customer_id_declaration_def customer_id_result_def
        eval_defs u p)
qed

lemma read_annotated_column:
  "read_column annotated_column = ([WarnDeprecation], Inr annotated_result)"
proof -
  have u: "upper ''status'' = ''STATUS''" "upper ''orders'' = ''ORDERS''"
    by code_simp+
  have p: "parse_ref ''ref('orders')'' = ''orders''" by code_simp
  show ?thesis
    by (simp add: annotated_column_def annotated_result_def eval_defs u p)
qed

lemma read_deprecated_column:
  "read_column deprecated_column = ([WarnDeprecation], Inr deprecated_result)"
proof -
  have u: "upper ''status'' = ''STATUS''" by code_simp
  show ?thesis
    by (simp add: deprecated_column_def deprecated_result_def eval_defs u)
qed

text \<open>
  C2. On every column declaration for which \<open>read_column\<close> returns a column,
  \<open>fk_target_table\<close> and \<open>fk_target_field\<close> are both set or both absent, and they are
  set exactly when the tests of the column contain a relationship test. Without a
  relationship test both are absent, and \<open>semantic_type\<close> is what the annotations give:
  \<open>metabase.semantic_type\<close>, else the deprecated \<open>metabase.special_type\<close>, else nothing.
\<close>

theorem read_column_fk_fields:
  assumes "read_column column = (l, Inr mb)"
  shows "(mb ''fk_target_table'' \<noteq> None \<longleftrightarrow> mb ''fk_target_field'' \<noteq> None) \<and>
         (mb ''fk_target_table'' \<noteq> None \<longleftrightarrow>
            (\<exists>t\<in>set (items column ''tests''). is_relationship_test t)) \<and>
         ((\<forall>t\<in>set (items column ''tests''). \<not> is_relationship_test t) \<longrightarrow>
            mb ''fk_target_table'' = None \<and> mb ''fk_target_field'' = None \<and>
            mb ''semantic_type'' =
              (case annotation column ''metabase.semantic_type'' of
                 Some v \<Rightarrow> Some v
               | None \<Rightarrow> annotation column ''metabase.special_type''))"
proof -
  from assms obtain kvs n mb1 where
    loop: "relationship_tests column (items column ''tests'')
           [''name'' \<mapsto> YStr (upper n), ''description'' \<mapsto> dict_get kvs ''description'' YNull]
         = Inr mb1"
    and frame: "\<forall>k. k \<noteq> ''semantic_type'' \<longrightarrow> k \<noteq> ''visibility_type'' \<longrightarrow> mb k = mb1 k"
    and sem: "mb ''semantic_type'' =
           (case annotation column ''metabase.semantic_type'' of
              Some v \<Rightarrow> Some v
            | None \<Rightarrow> (case mb1 ''semantic_type'' of
                         Some v \<Rightarrow> Some v
                       | None \<Rightarrow> annotation column ''metabase.special_type''))"
    by (rule read_column_Inr) blast
  have t: "mb ''fk_target_table'' = mb1 ''fk_target_table''"
    and f: "mb ''fk_target_field'' = mb1 ''fk_target_field''"
    by (simp_all add: frame)
  show ?thesis
  proof (cases "\<exists>t\<in>set (items column ''tests''). is_relationship_test t")
    case True
    with relationship_tests_result [OF loop] show ?thesis
      unfolding t f by auto
  next
    case False
    with relationship_tests_result [OF loop] have "mb1 =
      [''name'' \<mapsto> YStr (upper n), ''description'' \<mapsto> dict_get kvs ''description'' YNull]"
      by simp
    then have "mb1 ''semantic_type'' = None" "mb1 ''fk_target_table'' = None"
      "mb1 ''fk_target_field'' = None"
      by simp_all
    then show ?thesis using False sem unfolding t f by (simp split: option.splits)
  qed
qed

theorem read_column_fk_fields_witness:
  "read_column customer_id_column = ([], Inr customer_id_result) \<and>
   customer_id_result ''fk_target_table'' \<noteq> None \<and>
   customer_id_result ''fk_target_field'' \<noteq> None \<and>
   (\<exists>t\<in>set (items customer_id_column ''tests''). is_relationship_test t)"
proof -
  have t: "customer_id_result ''fk_target_table'' \<noteq> None"
    by (simp add: customer_id_result_def)
  show ?thesis
    using read_column_fk_fields [OF read_customer_id_column] read_customer_id_column t
    by blast
qed

text \<open>
  C3. On every column declaration for which \<open>read_column\<close> returns a column, a
  \<open>metabase.semantic_type\<close> or \<open>metabase.visibility_type\<close> annotation is the value of
  its field, whatever the relationship tests set. The deprecated \<open>metabase.special_type\<close>
  always logs the deprecation warning (and nothing else is logged), and it is the value of
  \<open>semantic_type\<close> only when neither \<open>metabase.semantic_type\<close> nor a relationship test
  has set the field.
\<close>

theorem read_column_annotations:
  assumes "read_column column = (l, Inr mb)"
  shows "(\<forall>v. annotation column ''metabase.semantic_type'' = Some v \<longrightarrow>
            mb ''semantic_type'' = Some v) \<and>
         (\<forall>v. annotation column ''metabase.visibility_type'' = Some v \<longrightarrow>
            mb ''visibility_type'' = Some v) \<and>
         (\<forall>v. annotation column ''metabase.special_type'' = Some v \<longrightarrow>
            l = [WarnDeprecation] \<and>
            mb ''semantic_type'' =
              (case annotation column ''metabase.semantic_type'' of
                 Some w \<Rightarrow> Some w
               | None \<Rightarrow>
                   if \<exists>t\<in>set (items column ''tests''). is_relationship_test t
                   then Some (YStr ''type/FK'') else Some v)) \<and>
         (annotation column ''metabase.special_type'' = None \<longrightarrow> l = [])"
proof -
  from assms obtain kvs n mb1 where
    loop: "relationship_tests column (items column ''tests'')
           [''name'' \<mapsto> YStr (upper n), ''description'' \<mapsto> dict_get kvs ''description'' YNull]
         = Inr mb1"
    and vis: "mb ''visibility_type'' =
           (case annotation column ''metabase.visibility_type'' of
              Some v \<Rightarrow> Some v | None \<Rightarrow> mb1 ''visibility_type'')"
    and sem: "mb ''semantic_type'' =
           (case annotation column ''metabase.semantic_type'' of
              Some v \<Rightarrow> Some v
            | None \<Rightarrow> (case mb1 ''semantic_type'' of
                         Some v \<Rightarrow> Some v
                       | None \<Rightarrow> annotation column ''metabase.special_type''))"
    and log: "l = (if annotation column ''metabase.special_type'' = None then []
              else [WarnDeprecation])"
    by (rule read_column_Inr) blast
  have "mb1 ''semantic_type'' =
          (if \<exists>t\<in>set (items column ''tests''). is_relationship_test t
           then Some (YStr ''type/FK'') else None)"
    using relationship_tests_result [OF loop] by (auto split: if_splits)
  then show ?thesis using vis sem log by (simp split: option.splits)
qed

theorem read_column_annotations_witness:
  "read_column annotated_column = ([WarnDeprecation], Inr annotated_result) \<and>
   annotation annotated_column ''metabase.semantic_type'' = Some (YStr ''type/Category'') \<and>
   annotation annotated_column ''metabase.visibility_type'' = Some (YStr ''sensitive'') \<and>
   annotation annotated_column ''metabase.special_type'' = Some (YStr ''type/Name'') \<and>
   annotated_result ''semantic_type'' = Some (YStr ''type/Category'') \<and>
   annotated_result ''visibility_type'' = Some (YStr ''sensitive'') \<and>
   read_column deprecated_column = ([WarnDeprecation], Inr deprecated_result) \<and>
   annotation deprecated_column ''metabase.special_type'' = Some (YStr ''type/Category'') \<and>
   deprecated_result ''semantic_type'' = Some (YStr ''type/Category'')"
proof -
  have a: "annotation annotated_column ''metabase.semantic_type'' = Some (YStr ''type/Category'')"
    "annotation annotated_column ''metabase.visibility_type'' = Some (YStr ''sensitive'')"
    "annotation annotated_column ''metabase.special_type'' = Some (YStr ''type/Name'')"
    by (simp_all add: annotation_def lookup_def annotated_column_def)
  have d: "annotation deprecated_column ''metabase.special_type'' = Some (YStr ''type/Category'')"
    "annotation deprecated_column ''metabase.semantic_type'' = None"
    "items deprecated_column ''tests'' = []"
    by (simp_all add: annotation_def lookup_def deprecated_column_def items_def py_get_def
        attr_get_def dict_get_def py_iter_def)
  have 1: "annotated_result ''semantic_type'' = Some (YStr ''type/Category'') \<and>
      annotated_result ''visibility_type'' = Some (YStr ''sensitive'')"
    using read_column_annotations [OF read_annotated_column] a by blast
  have 2: "deprecated_result ''semantic_type'' = Some (YStr ''type/Category'')"
    using read_column_annotations [OF read_deprecated_column] d by simp
  from 1 2 a d read_annotated_column read_deprecated_column show ?thesis by blast
qed

section \<open>Well-formed columns\<close>

lemma is_str_conv: "is_str v \<longleftrightarrow> v = YStr (str_of v)"
  by (cases v) (simp_all add: is_str_def str_of_def)

lemma relationship_test_typed:
  assumes "map_of tkvs ''relationships'' = Some (YMap r)"
    and "py_get column ''meta'' (YMap []) = Inr (YMap m)"
    and "is_str (dict_get m ''metabase.fk_ref'' (YStr []))"
    and "is_str (dict_get r ''to'' (YStr []))"
    and "is_str (dict_get r ''field'' (YStr []))"
  shows "relationship_test column (YMap tkvs) mb =
     (case map_of r ''to'' of
        None \<Rightarrow> Inl KeyError
      | Some to \<Rightarrow>
         (case map_of r ''field'' of
            None \<Rightarrow> Inl KeyError
          | Some field \<Rightarrow>
              Inr (mb(''semantic_type'' \<mapsto> YStr ''type/FK'',
                      ''fk_target_table'' \<mapsto>
                         YStr (upper (str_of (dict_get m ''metabase.fk_ref''
                                                (YStr (parse_ref (str_of to)))))),
                      ''fk_target_field'' \<mapsto> YStr (upper (str_of field))))))"
proof -
  have k: "''relationships'' \<in> set (map fst tkvs)"
    using assms(1) by (simp add: map_of_fst)
  have ref: "\<And>d. is_str (dict_get m ''metabase.fk_ref'' (YStr d))"
    using assms(3) by (simp add: dict_get_def is_str_def split: option.splits)
  have up: "\<And>d. py_upper (dict_get m ''metabase.fk_ref'' (YStr d)) =
      Inr (upper (str_of (dict_get m ''metabase.fk_ref'' (YStr d))))"
  proof -
    fix d
    from ref [of d] obtain s where "dict_get m ''metabase.fk_ref'' (YStr d) = YStr s"
      by (auto simp: is_str_conv)
    then show "py_upper (dict_get m ''metabase.fk_ref'' (YStr d)) =
      Inr (upper (str_of (dict_get m ''metabase.fk_ref'' (YStr d))))"
      by (simp add: py_upper_def str_of_def)
  qed
  show ?thesis
  proof (cases "map_of r ''to''")
    case None
    then show ?thesis
      using k assms(1,2)
      by (simp add: relationship_test_def is_dict_def py_contains_def py_getitem_def
          attr_get_def)
  next
    case to: (Some to)
    with assms(4) obtain s where s: "to = YStr s"
      by (auto simp: is_str_conv dict_get_def)
    show ?thesis
    proof (cases "map_of r ''field''")
      case None
      then show ?thesis
        using k assms(1,2) to s up
        by (simp add: relationship_test_def is_dict_def py_contains_def py_getitem_def
            attr_get_def py_parse_ref_def str_of_def)
    next
      case (Some field)
      with assms(5) obtain f where f: "field = YStr f"
        by (auto simp: is_str_conv dict_get_def)
      show ?thesis
        using k assms(1,2) to s up Some f
        by (simp add: relationship_test_def is_dict_def py_contains_def py_getitem_def
            attr_get_def py_parse_ref_def py_upper_def str_of_def)
    qed
  qed
qed


lemma typed_columnD:
  assumes "typed_column kvs"
  obtains n tests m where "dict_get kvs ''name'' (YStr []) = YStr n"
    and "dict_get kvs ''tests'' (YList []) = YList tests"
    and "list_all typed_test tests"
    and "py_get (YMap kvs) ''meta'' (YMap []) = Inr (YMap m)"
    and "is_str (dict_get m ''metabase.fk_ref'' (YStr []))"
  using assms
  by (auto simp: typed_column_def is_str_conv py_get_def attr_get_def split: yaml.splits)

lemma typed_relationship_test:
  assumes "is_relationship_test t" and "typed_test t"
  obtains tkvs r where "t = YMap tkvs" and "map_of tkvs ''relationships'' = Some (YMap r)"
    and "is_str (dict_get r ''to'' (YStr []))" and "is_str (dict_get r ''field'' (YStr []))"
proof -
  from assms(1) obtain tkvs where t: "t = YMap tkvs"
    and "''relationships'' \<in> set (map fst tkvs)"
    by (auto simp: is_relationship_test_def split: yaml.splits)
  then obtain rel where rel: "map_of tkvs ''relationships'' = Some rel"
    by (auto simp: map_of_fst)
  with assms(2) t obtain r where "rel = YMap r"
    and "is_str (dict_get r ''to'' (YStr []))" and "is_str (dict_get r ''field'' (YStr []))"
    by (auto simp: typed_test_def py_getitem_def split: yaml.splits)
  with t rel show thesis by (intro that) simp_all
qed

lemma typed_test_error:
  assumes "typed_test t"
    and "py_get column ''meta'' (YMap []) = Inr (YMap m)"
    and "is_str (dict_get m ''metabase.fk_ref'' (YStr []))"
    and "relationship_test column t mb = Inl e"
  shows "e = KeyError"
proof (cases "is_relationship_test t")
  case True
  from typed_relationship_test [OF True assms(1)] obtain tkvs r where
    t: "t = YMap tkvs" and r: "map_of tkvs ''relationships'' = Some (YMap r)"
    and s: "is_str (dict_get r ''to'' (YStr []))" "is_str (dict_get r ''field'' (YStr []))"
    by blast
  from assms(4) show ?thesis
    unfolding t relationship_test_typed [OF r assms(2,3) s]
    by (simp split: option.splits)
next
  case False
  with assms(4) show ?thesis by (simp add: not_relationship_test)
qed

lemma missing_to_error:
  assumes "typed_test t"
    and "py_get column ''meta'' (YMap []) = Inr (YMap m)"
    and "is_str (dict_get m ''metabase.fk_ref'' (YStr []))"
    and "py_getitem t ''relationships'' = Inr (YMap r)" and "map_of r ''to'' = None"
  shows "relationship_test column t mb = Inl KeyError"
proof -
  from assms(4) obtain tkvs where t: "t = YMap tkvs"
    and r: "map_of tkvs ''relationships'' = Some (YMap r)"
    by (cases t) (auto simp: py_getitem_def split: option.splits)
  from assms(1) t r have s: "is_str (dict_get r ''to'' (YStr []))"
    "is_str (dict_get r ''field'' (YStr []))"
    by (simp_all add: typed_test_def py_getitem_def)
  show ?thesis
    unfolding t relationship_test_typed [OF r assms(2,3) s] using assms(5) by simp
qed

lemma missing_to_loop:
  assumes "list_all typed_test ts"
    and "py_get column ''meta'' (YMap []) = Inr (YMap m)"
    and "is_str (dict_get m ''metabase.fk_ref'' (YStr []))"
    and "t \<in> set ts"
    and "py_getitem t ''relationships'' = Inr (YMap r)" and "map_of r ''to'' = None"
  shows "relationship_tests column ts mb = Inl KeyError"
  using assms(1,4)
proof (induction ts arbitrary: mb)
  case Nil
  then show ?case by simp
next
  case (Cons x xs)
  show ?case
  proof (cases "relationship_test column x mb")
    case (Inl e)
    from Cons.prems(1) have "typed_test x" by simp
    from typed_test_error [OF this assms(2,3) Inl] have "e = KeyError" .
    with Inl show ?thesis by simp
  next
    case (Inr mb1)
    have "x \<noteq> t"
      using Inr missing_to_error [OF _ assms(2,3,5,6)] Cons.prems(1) by auto
    with Cons.prems have "t \<in> set xs" "list_all typed_test xs" by simp_all
    with Cons.IH [of mb1] Inr show ?thesis by simp
  qed
qed

lemma annotation_meta:
  assumes "py_get (YMap kvs) ''meta'' (YMap []) = Inr (YMap m)"
  shows "annotation (YMap kvs) k = map_of m k"
  using assms
  by (auto simp: annotation_def lookup_def py_get_def attr_get_def dict_get_def
      split: option.splits)

lemma complete_typed: "complete_test t \<Longrightarrow> typed_test t"
  by (auto simp: complete_test_def typed_test_def dict_get_def is_str_def
      split: sum.splits yaml.splits option.splits)

lemma complete_relationship_test:
  assumes "is_relationship_test t" and "complete_test t"
  obtains tkvs r to field where "t = YMap tkvs"
    and "map_of tkvs ''relationships'' = Some (YMap r)"
    and "map_of r ''to'' = Some (YStr to)" and "map_of r ''field'' = Some (YStr field)"
proof -
  from typed_relationship_test [OF assms(1) complete_typed [OF assms(2)]]
  obtain tkvs r where t: "t = YMap tkvs" and r: "map_of tkvs ''relationships'' = Some (YMap r)"
    by blast
  with assms(2) have "is_str (dict_get r ''to'' YNull)" "is_str (dict_get r ''field'' YNull)"
    by (simp_all add: complete_test_def py_getitem_def)
  then obtain to field where "map_of r ''to'' = Some (YStr to)"
    "map_of r ''field'' = Some (YStr field)"
    by (auto simp: dict_get_def is_str_def split: option.splits yaml.splits)
  with t r show thesis by (rule that)
qed

lemma complete_test_step:
  assumes "complete_test t"
    and "py_get column ''meta'' (YMap []) = Inr (YMap m)"
    and "is_str (dict_get m ''metabase.fk_ref'' (YStr []))"
  shows "\<exists>mb'. relationship_test column t mb = Inr mb'"
proof (cases "is_relationship_test t")
  case True
  from complete_relationship_test [OF True assms(1)] obtain tkvs r to field where
    t: "t = YMap tkvs" and r: "map_of tkvs ''relationships'' = Some (YMap r)"
    and to: "map_of r ''to'' = Some (YStr to)" and f: "map_of r ''field'' = Some (YStr field)"
    by blast
  have s: "is_str (dict_get r ''to'' (YStr []))" "is_str (dict_get r ''field'' (YStr []))"
    using to f by (simp_all add: dict_get_def is_str_def)
  show ?thesis
    unfolding t relationship_test_typed [OF r assms(2,3) s] using to f by simp
next
  case False
  then show ?thesis by (simp add: not_relationship_test)
qed

lemma complete_tests_loop:
  assumes "list_all complete_test ts"
    and "py_get column ''meta'' (YMap []) = Inr (YMap m)"
    and "is_str (dict_get m ''metabase.fk_ref'' (YStr []))"
  shows "\<exists>mb'. relationship_tests column ts mb = Inr mb'"
  using assms(1)
proof (induction ts arbitrary: mb)
  case Nil
  then show ?case by simp
next
  case (Cons t ts)
  then have "complete_test t" by simp
  from complete_test_step [OF this assms(2,3)] obtain mb1 where
    "relationship_test column t mb = Inr mb1" by blast
  with Cons show ?case by simp
qed

lemma meta_fields_dict: "\<exists>mb'. meta_fields (YMap m) fs mb = Inr mb'"
proof (induction fs arbitrary: mb)
  case Nil
  then show ?case by simp
next
  case (Cons f fs)
  show ?case
  proof (cases "map_of m (''metabase.'' @ f)")
    case None
    then have "py_contains (''metabase.'' @ f) (YMap m) = Inr False"
      by (simp add: py_contains_def map_of_fst)
    with Cons show ?thesis by simp
  next
    case (Some v)
    then have "py_contains (''metabase.'' @ f) (YMap m) = Inr True"
      "py_getitem (YMap m) (''metabase.'' @ f) = Inr v"
      by (simp_all add: py_contains_def py_getitem_def map_of_fst)
    with Cons show ?thesis by simp
  qed
qed

lemma read_column_total:
  assumes "dict_get kvs ''name'' (YStr []) = YStr n"
    and "bindE (py_get (YMap kvs) ''tests'' (YList [])) py_iter = Inr tests"
    and "relationship_tests (YMap kvs) tests
           [''name'' \<mapsto> YStr (upper n), ''description'' \<mapsto> dict_get kvs ''description'' YNull]
         = Inr mb1"
    and "py_get (YMap kvs) ''meta'' (YMap []) = Inr (YMap m)"
  shows "\<exists>l mb. read_column (YMap kvs) = (l, Inr mb)"
proof -
  have nm: "bindE (py_get (YMap kvs) ''name'' (YStr [])) py_upper = Inr (upper n)"
    using assms(1) by (simp add: py_get_def attr_get_def py_upper_def)
  have d: "py_get (YMap kvs) ''description'' YNull = Inr (dict_get kvs ''description'' YNull)"
    by (simp add: py_get_def attr_get_def)
  have hm: "py_contains ''meta'' (YMap kvs) = Inr (map_of kvs ''meta'' \<noteq> None)"
    by (simp add: py_contains_def map_of_fst)
  from meta_fields_dict obtain mb2 where mf: "meta_fields (YMap m) META_FIELDS mb1 = Inr mb2"
    by blast
  have dep: "py_contains ''metabase.special_type'' (YMap m) =
      Inr (map_of m ''metabase.special_type'' \<noteq> None)"
    by (simp add: py_contains_def map_of_fst)
  have gi: "map_of m ''metabase.special_type'' \<noteq> None \<Longrightarrow>
      \<exists>v. py_getitem (YMap m) ''metabase.special_type'' = Inr v"
    by (auto simp: py_getitem_def)
  show ?thesis
  proof (cases "map_of kvs ''meta''")
    case None
    then show ?thesis
      unfolding read_column_def by (simp add: nm d assms(2,3) hm)
  next
    case (Some a)
    show ?thesis
    proof (cases "map_of m ''metabase.special_type''")
      case None
      then show ?thesis
        unfolding read_column_def
        by (simp add: nm d assms(2,3,4) hm Some mf dep)
    next
      case v: (Some v)
      then have g: "py_getitem (YMap m) ''metabase.special_type'' = Inr v"
        by (simp add: py_getitem_def)
      show ?thesis
        unfolding read_column_def
        by (cases "mb2 ''semantic_type''")
          (simp_all add: nm d assms(2,3,4) hm Some mf dep v g prod_eq_iff)
    qed
  qed
qed

text \<open>
  C1. Take a column declaration of the shape of the data model (a string name, a
  \<open>meta\<close> mapping or none) whose relationship tests all have a string \<open>to\<close> and a
  string \<open>field\<close>, with at least one such test and no \<open>metabase.fk_ref\<close> annotation.
  Then \<open>read_column\<close> returns a column, with the uppercased name, \<open>semantic_type\<close>
  \<open>type/FK\<close> unless \<open>metabase.semantic_type\<close> is annotated, \<open>fk_target_table\<close> the
  uppercased \<open>parse_ref\<close> of the test's \<open>to\<close> and \<open>fk_target_field\<close> the uppercased
  \<open>field\<close>. The test is the relationship test of the column, the last one if the
  column declares several.
\<close>

theorem read_column_relationship:
  assumes "typed_column kvs"
    and "list_all complete_test (items (YMap kvs) ''tests'')"
    and "filter is_relationship_test (items (YMap kvs) ''tests'') \<noteq> []"
    and "py_getitem (last (filter is_relationship_test (items (YMap kvs) ''tests'')))
           ''relationships'' = Inr (YMap r)"
    and "map_of r ''to'' = Some (YStr to)"
    and "map_of r ''field'' = Some (YStr field)"
    and "annotation (YMap kvs) ''metabase.fk_ref'' = None"
  shows "\<exists>l mb. read_column (YMap kvs) = (l, Inr mb) \<and>
           mb ''name'' = Some (YStr (upper (str_of (dict_get kvs ''name'' (YStr []))))) \<and>
           mb ''semantic_type'' =
             (case annotation (YMap kvs) ''metabase.semantic_type'' of
                Some v \<Rightarrow> Some v | None \<Rightarrow> Some (YStr ''type/FK'')) \<and>
           mb ''fk_target_table'' = Some (YStr (upper (parse_ref to))) \<and>
           mb ''fk_target_field'' = Some (YStr (upper field))"
proof -
  let ?tests = "items (YMap kvs) ''tests''"
  let ?t = "last (filter is_relationship_test ?tests)"
  from assms(1) obtain n tests m where
    n: "dict_get kvs ''name'' (YStr []) = YStr n"
    and tests: "dict_get kvs ''tests'' (YList []) = YList tests"
    and meta: "py_get (YMap kvs) ''meta'' (YMap []) = Inr (YMap m)"
    and ref: "is_str (dict_get m ''metabase.fk_ref'' (YStr []))"
    by (rule typed_columnD)
  from tests have it: "bindE (py_get (YMap kvs) ''tests'' (YList [])) py_iter = Inr tests"
    by (simp add: py_get_def attr_get_def py_iter_def)
  then have items: "?tests = tests" by (simp add: items_def)
  let ?mb0 = "[''name'' \<mapsto> YStr (upper n),
               ''description'' \<mapsto> dict_get kvs ''description'' YNull]"
  from complete_tests_loop [OF assms(2) meta ref] obtain mb1 where
    loop: "relationship_tests (YMap kvs) ?tests ?mb0 = Inr mb1"
    by blast
  from read_column_total [OF n it loop [unfolded items] meta] obtain l mb where
    rc: "read_column (YMap kvs) = (l, Inr mb)" by blast
  from rc obtain kvs' n' mb1' where "YMap kvs = YMap kvs'"
    and "dict_get kvs' ''name'' (YStr []) = YStr n'"
    and "relationship_tests (YMap kvs) ?tests
           [''name'' \<mapsto> YStr (upper n'), ''description'' \<mapsto> dict_get kvs' ''description'' YNull]
         = Inr mb1'"
    and frame': "\<forall>k. k \<noteq> ''semantic_type'' \<longrightarrow> k \<noteq> ''visibility_type'' \<longrightarrow> mb k = mb1' k"
    and sem': "mb ''semantic_type'' =
           (case annotation (YMap kvs) ''metabase.semantic_type'' of
              Some v \<Rightarrow> Some v
            | None \<Rightarrow> (case mb1' ''semantic_type'' of
                         Some v \<Rightarrow> Some v
                       | None \<Rightarrow> annotation (YMap kvs) ''metabase.special_type''))"
    by (rule read_column_Inr) blast
  with n loop have e: "mb1' = mb1" by simp
  note frame = frame' [unfolded e] and sem = sem' [unfolded e]
  have ex: "\<exists>t\<in>set ?tests. is_relationship_test t"
    using assms(3) by (simp add: filter_empty_conv)
  note step = relationship_tests_last [OF loop ex]
  from assms(4) obtain tkvs where t: "?t = YMap tkvs"
    and r: "map_of tkvs ''relationships'' = Some (YMap r)"
    by (cases ?t) (auto simp: py_getitem_def split: option.splits)
  have s: "is_str (dict_get r ''to'' (YStr []))" "is_str (dict_get r ''field'' (YStr []))"
    using assms(5,6) by (simp_all add: dict_get_def is_str_def)
  from assms(7) have "map_of m ''metabase.fk_ref'' = None"
    by (simp add: annotation_meta [OF meta])
  then have d: "\<And>d. dict_get m ''metabase.fk_ref'' d = d" by (simp add: dict_get_def)
  from step have mb1: "mb1 = ?mb0(''semantic_type'' \<mapsto> YStr ''type/FK'',
      ''fk_target_table'' \<mapsto> YStr (upper (parse_ref to)),
      ''fk_target_field'' \<mapsto> YStr (upper field))"
    unfolding t relationship_test_typed [OF r meta ref s]
    by (simp add: assms(5,6) d str_of_def)
  have "mb ''name'' = Some (YStr (upper n))"
    "mb ''fk_target_table'' = Some (YStr (upper (parse_ref to)))"
    "mb ''fk_target_field'' = Some (YStr (upper field))"
    using frame by (simp_all add: mb1)
  moreover have "mb ''semantic_type'' =
             (case annotation (YMap kvs) ''metabase.semantic_type'' of
                Some v \<Rightarrow> Some v | None \<Rightarrow> Some (YStr ''type/FK''))"
    using sem by (simp add: mb1 split: option.splits)
  ultimately show ?thesis using rc n by (simp add: str_of_def)
qed

theorem read_column_relationship_witness:
  "typed_column customer_id_declaration \<and>
   list_all complete_test (items (YMap customer_id_declaration) ''tests'') \<and>
   last (filter is_relationship_test (items (YMap customer_id_declaration) ''tests'')) =
     YMap [(''relationships'',
       YMap [(''to'', YStr ''ref('orders')''), (''field'', YStr ''customer_id'')])] \<and>
   annotation (YMap customer_id_declaration) ''metabase.fk_ref'' = None \<and>
   (\<exists>l mb. read_column (YMap customer_id_declaration) = (l, Inr mb) \<and>
      mb ''name'' = Some (YStr ''CUSTOMER_ID'') \<and>
      mb ''semantic_type'' = Some (YStr ''type/FK'') \<and>
      mb ''fk_target_table'' = Some (YStr ''ORDERS'') \<and>
      mb ''fk_target_field'' = Some (YStr ''CUSTOMER_ID''))"
proof -
  have u: "upper ''customer_id'' = ''CUSTOMER_ID''" "upper ''orders'' = ''ORDERS''"
    by code_simp+
  have p: "parse_ref ''ref('orders')'' = ''orders''" by code_simp
  have i: "items (YMap customer_id_declaration) ''tests'' =
      [YStr ''not_null'',
       YMap [(''relationships'',
         YMap [(''to'', YStr ''ref('orders')''), (''field'', YStr ''customer_id'')])]]"
    by (simp add: items_def py_get_def attr_get_def dict_get_def py_iter_def
        customer_id_declaration_def)
  have 1: "typed_column customer_id_declaration"
    by (simp add: typed_column_def customer_id_declaration_def dict_get_def is_str_def
        typed_test_def py_getitem_def)
  have 2: "list_all complete_test (items (YMap customer_id_declaration) ''tests'')"
    unfolding i by (simp add: complete_test_def py_getitem_def dict_get_def is_str_def)
  have l: "last (filter is_relationship_test (items (YMap customer_id_declaration) ''tests'')) =
     YMap [(''relationships'',
       YMap [(''to'', YStr ''ref('orders')''), (''field'', YStr ''customer_id'')])]"
    unfolding i by (simp add: is_relationship_test_def)
  have 3: "filter is_relationship_test (items (YMap customer_id_declaration) ''tests'') \<noteq> []"
    unfolding i by (simp add: is_relationship_test_def)
  have 4: "py_getitem
      (last (filter is_relationship_test (items (YMap customer_id_declaration) ''tests'')))
      ''relationships'' =
      Inr (YMap [(''to'', YStr ''ref('orders')''), (''field'', YStr ''customer_id'')])"
    unfolding l by (simp add: py_getitem_def)
  have 7: "annotation (YMap customer_id_declaration) ''metabase.fk_ref'' = None"
    by (simp add: annotation_def lookup_def customer_id_declaration_def)
  have n: "str_of (dict_get customer_id_declaration ''name'' (YStr [])) = ''customer_id''"
    by (simp add: dict_get_def str_of_def customer_id_declaration_def)
  have a: "annotation (YMap customer_id_declaration) ''metabase.semantic_type'' = None"
    by (simp add: annotation_def lookup_def customer_id_declaration_def)
  from read_column_relationship [OF 1 2 3 4 _ _ 7, of "''ref('orders')''" "''customer_id''"]
  have "\<exists>l mb. read_column (YMap customer_id_declaration) = (l, Inr mb) \<and>
      mb ''name'' = Some (YStr ''CUSTOMER_ID'') \<and>
      mb ''semantic_type'' = Some (YStr ''type/FK'') \<and>
      mb ''fk_target_table'' = Some (YStr ''ORDERS'') \<and>
      mb ''fk_target_field'' = Some (YStr ''CUSTOMER_ID'')"
    by (simp add: n a u p)
  with 1 2 l 7 show ?thesis by blast
qed

section \<open>Several relationship tests\<close>

lemma bindE_Inr_id [simp]: "bindE m Inr = m"
  by (cases m) simp_all

lemma relationship_test_tests_key:
  "relationship_test (YMap ((''tests'', v) # kvs)) t mb = relationship_test (YMap kvs) t mb"
proof -
  have g: "py_get (YMap ((''tests'', v) # kvs)) ''meta'' (YMap []) =
      py_get (YMap kvs) ''meta'' (YMap [])"
    by (simp add: py_get_def attr_get_def dict_get_def)
  show ?thesis unfolding relationship_test_def g ..
qed

lemma read_two_relationships:
  "read_column (YMap two_relationships_declaration) = ([], Inr two_relationships_result)"
proof -
  have u: "upper ''ref_id'' = ''REF_ID''" "upper ''orders'' = ''ORDERS''" "upper ''id'' = ''ID''"
    "upper ''payments'' = ''PAYMENTS''" "upper ''payment_id'' = ''PAYMENT_ID''"
    by code_simp+
  have p: "parse_ref ''ref('orders')'' = ''orders''"
    "parse_ref ''ref('payments')'' = ''payments''"
    by code_simp+
  show ?thesis
    by (simp add: two_relationships_declaration_def two_relationships_result_def eval_defs u p)
qed

text \<open>
  C4, as stated, fails: of the two relationship tests of this column the first points
  to \<open>orders.id\<close>, and the column read points to \<open>payments.payment_id\<close>.
\<close>

theorem read_column_first_relationship_counterexample:
  "field_of (read_column (YMap
      [(''name'', YStr ''ref_id''),
       (''tests'', YList [
          YMap [(''relationships'',
            YMap [(''to'', YStr ''ref('orders')''), (''field'', YStr ''id'')])],
          YMap [(''relationships'',
            YMap [(''to'', YStr ''ref('payments')''), (''field'', YStr ''payment_id'')])]])]))
     ''fk_target_table'' = Some (YStr ''PAYMENTS'') \<and>
   field_of (read_column (YMap
      [(''name'', YStr ''ref_id''),
       (''tests'', YList [
          YMap [(''relationships'',
            YMap [(''to'', YStr ''ref('orders')''), (''field'', YStr ''id'')])],
          YMap [(''relationships'',
            YMap [(''to'', YStr ''ref('payments')''), (''field'', YStr ''payment_id'')])]])]))
     ''fk_target_field'' = Some (YStr ''PAYMENT_ID'') \<and>
   upper (parse_ref ''ref('orders')'') = ''ORDERS'' \<and> upper ''id'' = ''ID''"
proof -
  have u: "upper (parse_ref ''ref('orders')'') = ''ORDERS''" "upper ''id'' = ''ID''"
    by code_simp+
  show ?thesis
    using read_two_relationships u
    by (simp add: two_relationships_declaration_def two_relationships_result_def field_of_def)
qed

text \<open>
  C4, amended. For every column declaration with a relationship test on which
  \<open>read_column\<close> returns a column, the column (and the log) is the one read from the
  same declaration with the last relationship test of the sequence as its only test:
  \<open>semantic_type\<close>, \<open>fk_target_table\<close> and \<open>fk_target_field\<close> are determined by the
  last relationship test, not by an earlier one.
\<close>

theorem read_column_last_relationship:
  assumes "read_column (YMap kvs) = (l, Inr mb)"
    and "filter is_relationship_test (items (YMap kvs) ''tests'') \<noteq> []"
  shows "read_column
           (YMap ((''tests'',
                   YList [last (filter is_relationship_test (items (YMap kvs) ''tests''))])
                  # kvs)) = (l, Inr mb)"
proof -
  let ?tests = "items (YMap kvs) ''tests''"
  let ?t = "last (filter is_relationship_test ?tests)"
  from assms(1) obtain nm d ts mb1 where
    nm: "bindE (py_get (YMap kvs) ''name'' (YStr [])) py_upper = Inr nm"
    and d: "py_get (YMap kvs) ''description'' YNull = Inr d"
    and ts: "bindE (py_get (YMap kvs) ''tests'' (YList [])) py_iter = Inr ts"
    and loop: "relationship_tests (YMap kvs) ts
                 [''name'' \<mapsto> YStr nm, ''description'' \<mapsto> d] = Inr mb1"
    unfolding read_column_def by (auto simp: bindL_Inr)
  from ts have items: "?tests = ts" by (simp add: items_def)
  have ex: "\<exists>t\<in>set ts. is_relationship_test t"
    using assms(2) unfolding items by (simp add: filter_empty_conv)
  from relationship_tests_last [OF loop ex]
  have step: "relationship_test (YMap kvs) ?t [''name'' \<mapsto> YStr nm, ''description'' \<mapsto> d] =
      Inr mb1"
    unfolding items .
  let ?kvs' = "(''tests'', YList [?t]) # kvs"
  have nm': "bindE (py_get (YMap ?kvs') ''name'' (YStr [])) py_upper = Inr nm"
    using nm by (simp add: py_get_def attr_get_def dict_get_def)
  have d': "py_get (YMap ?kvs') ''description'' YNull = Inr d"
    using d by (simp add: py_get_def attr_get_def dict_get_def)
  have ts': "bindE (py_get (YMap ?kvs') ''tests'' (YList [])) py_iter = Inr [?t]"
    by (simp add: py_get_def attr_get_def dict_get_def py_iter_def)
  have loop': "relationship_tests (YMap ?kvs') [?t]
                 [''name'' \<mapsto> YStr nm, ''description'' \<mapsto> d] = Inr mb1"
    using step by (simp add: relationship_test_tests_key)
  have hm: "py_contains ''meta'' (YMap ?kvs') = py_contains ''meta'' (YMap kvs)"
    by (simp add: py_contains_def)
  have gm: "py_get (YMap ?kvs') ''meta'' (YMap []) = py_get (YMap kvs) ''meta'' (YMap [])"
    by (simp add: py_get_def attr_get_def dict_get_def)
  have "read_column (YMap ?kvs') = read_column (YMap kvs)"
    by (simp add: read_column_def nm d ts loop nm' d' ts' relationship_test_tests_key step
        hm gm cong: if_cong)
  with assms(1) show ?thesis by simp
qed

theorem read_column_last_relationship_witness:
  "read_column (YMap two_relationships_declaration) = ([], Inr two_relationships_result) \<and>
   last (filter is_relationship_test (items (YMap two_relationships_declaration) ''tests'')) =
     YMap [(''relationships'',
       YMap [(''to'', YStr ''ref('payments')''), (''field'', YStr ''payment_id'')])] \<and>
   read_column
     (YMap ((''tests'', YList [
        YMap [(''relationships'',
          YMap [(''to'', YStr ''ref('payments')''), (''field'', YStr ''payment_id'')])]])
      # two_relationships_declaration)) = ([], Inr two_relationships_result)"
proof -
  have i: "items (YMap two_relationships_declaration) ''tests'' =
      [YMap [(''relationships'',
         YMap [(''to'', YStr ''ref('orders')''), (''field'', YStr ''id'')])],
       YMap [(''relationships'',
         YMap [(''to'', YStr ''ref('payments')''), (''field'', YStr ''payment_id'')])]]"
    by (simp add: items_def py_get_def attr_get_def dict_get_def py_iter_def
        two_relationships_declaration_def)
  have l: "last (filter is_relationship_test
      (items (YMap two_relationships_declaration) ''tests'')) =
     YMap [(''relationships'',
       YMap [(''to'', YStr ''ref('payments')''), (''field'', YStr ''payment_id'')])]"
    unfolding i by (simp add: is_relationship_test_def)
  have n: "filter is_relationship_test
      (items (YMap two_relationships_declaration) ''tests'') \<noteq> []"
    unfolding i by (simp add: is_relationship_test_def)
  from read_column_last_relationship [OF read_two_relationships n] read_two_relationships l
  show ?thesis by simp
qed

section \<open>A relationship test without a target\<close>

text \<open>
  C9. Take a column declaration of the shape of the data model (a string name, typed
  tests, a \<open>meta\<close> mapping or none, \<open>metabase.fk_ref\<close> a string where present). If one of
  its relationship tests has no \<open>to\<close>, \<open>read_column\<close> fails with a \<open>KeyError\<close>,
  whether or not \<open>metabase.fk_ref\<close> is annotated: the default
  \<open>parse_ref(relationships["to"])\<close> is evaluated before the override is looked up.
\<close>

theorem read_column_missing_to:
  assumes "typed_column kvs"
    and "t \<in> set (items (YMap kvs) ''tests'')"
    and "py_getitem t ''relationships'' = Inr (YMap r)"
    and "map_of r ''to'' = None"
  shows "read_column (YMap kvs) = ([], Inl KeyError)"
proof -
  from assms(1) obtain n tests m where
    n: "dict_get kvs ''name'' (YStr []) = YStr n"
    and tests: "dict_get kvs ''tests'' (YList []) = YList tests"
    and typed: "list_all typed_test tests"
    and meta: "py_get (YMap kvs) ''meta'' (YMap []) = Inr (YMap m)"
    and ref: "is_str (dict_get m ''metabase.fk_ref'' (YStr []))"
    by (rule typed_columnD)
  from tests have it: "bindE (py_get (YMap kvs) ''tests'' (YList [])) py_iter = Inr tests"
    by (simp add: py_get_def attr_get_def py_iter_def)
  with assms(2) have "t \<in> set tests" by (simp add: items_def)
  from missing_to_loop [OF typed meta ref this assms(3,4)]
  have "\<And>mb. relationship_tests (YMap kvs) tests mb = Inl KeyError" .
  then show ?thesis
    unfolding read_column_def using n it
    by (simp add: py_get_def attr_get_def py_upper_def)
qed

theorem read_column_missing_to_witness:
  "typed_column missing_to_declaration \<and>
   annotation (YMap missing_to_declaration) ''metabase.fk_ref'' = Some (YStr ''orders'') \<and>
   YMap [(''relationships'', YMap [(''field'', YStr ''customer_id'')])]
     \<in> set (items (YMap missing_to_declaration) ''tests'') \<and>
   read_column (YMap missing_to_declaration) = ([], Inl KeyError)"
proof -
  have 1: "typed_column missing_to_declaration"
    by (simp add: typed_column_def missing_to_declaration_def dict_get_def is_str_def
        typed_test_def py_getitem_def)
  have 2: "YMap [(''relationships'', YMap [(''field'', YStr ''customer_id'')])]
     \<in> set (items (YMap missing_to_declaration) ''tests'')"
    by (simp add: items_def py_get_def attr_get_def dict_get_def py_iter_def
        missing_to_declaration_def)
  have 3: "py_getitem (YMap [(''relationships'', YMap [(''field'', YStr ''customer_id'')])])
      ''relationships'' = Inr (YMap [(''field'', YStr ''customer_id'')])"
    by (simp add: py_getitem_def)
  have 4: "map_of [(''field'', YStr ''customer_id'')] ''to'' = None" by simp
  have a: "annotation (YMap missing_to_declaration) ''metabase.fk_ref'' = Some (YStr ''orders'')"
    by (simp add: annotation_def lookup_def missing_to_declaration_def)
  from read_column_missing_to [OF 1 2 3 4] 1 2 a show ?thesis by simp
qed

section \<open>Properties of read\_model\<close>

lemma identifier_or_name_dict:
  "identifier_or_name (YMap kvs) =
     (case map_of kvs ''name'' of
        None \<Rightarrow> Inl KeyError
      | Some n \<Rightarrow> Inr (dict_get kvs ''identifier'' n))"
  by (simp add: identifier_or_name_def attr_get_def py_getitem_def split: option.splits)

text \<open>
  C7, as stated, fails: an entry with an \<open>identifier\<close> and no \<open>name\<close> is not read
  under its identifier, it fails with a \<open>KeyError\<close>; the same entry with a \<open>name\<close> is
  read under its identifier.
\<close>

theorem read_model_identifier_only_counterexample:
  "read_model (YMap [(''identifier'', YStr ''customers'')]) = ([], Inl KeyError) \<and>
   read_model (YMap [(''identifier'', YStr ''customers''), (''name'', YStr ''stg_customers'')]) =
     ([], Inr \<lparr>name = ''CUSTOMERS'', description = YNull, columns = []\<rparr>)"
proof -
  have u: "upper ''customers'' = ''CUSTOMERS''" by code_simp
  show ?thesis
    by (simp add: read_model_def identifier_or_name_dict eval_defs u)
qed

text \<open>
  C7, amended. For every model or source-table entry whose columns are read, the name of
  the normalized model is the uppercased \<open>identifier\<close> when the entry has both a \<open>name\<close>
  and an \<open>identifier\<close>, and the uppercased \<open>name\<close> when it has a \<open>name\<close> only; an
  entry without a \<open>name\<close> fails with a \<open>KeyError\<close>, whether or not it has an
  \<open>identifier\<close> (the names are strings).
\<close>

theorem read_model_name:
  assumes "bindE (py_get (YMap kvs) ''columns'' (YList [])) py_iter = Inr cols"
    and "read_columns cols = (l, Inr cs)"
  shows "(map_of kvs ''name'' = None \<longrightarrow> read_model (YMap kvs) = (l, Inl KeyError)) \<and>
         (\<forall>n i. map_of kvs ''name'' = Some n \<and> map_of kvs ''identifier'' = Some (YStr i) \<longrightarrow>
            (\<exists>m. read_model (YMap kvs) = (l, Inr m) \<and> name m = upper i)) \<and>
         (\<forall>n. map_of kvs ''name'' = Some (YStr n) \<and> map_of kvs ''identifier'' = None \<longrightarrow>
            (\<exists>m. read_model (YMap kvs) = (l, Inr m) \<and> name m = upper n))"
  using assms
  by (simp add: read_model_def identifier_or_name_dict dict_get_def py_upper_def
      py_get_def attr_get_def bindL_def ret_def lift_def)

theorem read_model_name_witness:
  "(\<exists>m. read_model (YMap [(''identifier'', YStr ''customers''), (''name'', YStr ''stg_customers'')])
          = ([], Inr m) \<and> name m = ''CUSTOMERS'') \<and>
   (\<exists>m. read_model (YMap [(''name'', YStr ''orders'')]) = ([], Inr m) \<and> name m = ''ORDERS'') \<and>
   read_model (YMap [(''description'', YStr ''no name'')]) = ([], Inl KeyError)"
proof -
  have u: "upper ''customers'' = ''CUSTOMERS''" "upper ''orders'' = ''ORDERS''" by code_simp+
  have c: "\<And>kvs. map_of kvs ''columns'' = None \<Longrightarrow>
      bindE (py_get (YMap kvs) ''columns'' (YList [])) py_iter = Inr []"
    by (simp add: py_get_def attr_get_def dict_get_def py_iter_def)
  have r: "read_columns [] = ([], Inr [])" by (simp add: ret_def)
  from read_model_name [OF c r,
      of "[(''identifier'', YStr ''customers''), (''name'', YStr ''stg_customers'')]"]
  have 1: "\<exists>m. read_model
      (YMap [(''identifier'', YStr ''customers''), (''name'', YStr ''stg_customers'')])
          = ([], Inr m) \<and> name m = ''CUSTOMERS''"
    by (simp add: u)
  from read_model_name [OF c r, of "[(''name'', YStr ''orders'')]"]
  have 2: "\<exists>m. read_model (YMap [(''name'', YStr ''orders'')]) = ([], Inr m) \<and>
      name m = ''ORDERS''"
    by (simp add: u)
  from read_model_name [OF c r, of "[(''description'', YStr ''no name'')]"]
  have 3: "read_model (YMap [(''description'', YStr ''no name'')]) = ([], Inl KeyError)"
    by simp
  from 1 2 3 show ?thesis by blast
qed

section \<open>Properties of read\_models\<close>

lemma bindL_assoc: "bindL (bindL m f) g = bindL m (\<lambda>x. bindL (f x) g)"
  by (cases m; cases "snd m") (auto simp: bindL_def split: prod.splits sum.splits)

lemma bindL_ret_right [simp]: "bindL m ret = m"
  by (cases m; cases "snd m") (auto simp: bindL_def ret_def)

lemma read_schemas_append:
  "read_schemas inc exc (fs @ gs) =
     bindL (read_schemas inc exc fs) (\<lambda>ms.
     bindL (read_schemas inc exc gs) (\<lambda>ms'. ret (ms @ ms')))"
  by (induction fs) (simp_all add: bindL_assoc)

lemma read_schema_null:
  "read_schema inc exc (path, YNull) = ([InfoProcessing path, WarnSkipping path], Inr [])"
  by (simp add: read_schema_def)

lemma read_schema_not_mapping:
  assumes "schema \<noteq> YNull" and "\<not> is_dict schema"
  shows "read_schema inc exc (path, schema) = ([InfoProcessing path], Inl AttributeError)"
  using assms by (cases schema) (simp_all add: read_schema_def py_get_def attr_get_def is_dict_def)

lemma bindL_logging_eq:
  "bindL (logging ev) g = (l, r) \<longleftrightarrow> (\<exists>l'. g () = (l', r) \<and> l = ev # l')"
  by (cases "g ()") (auto simp: bindL_def logging_def)

lemma read_entries_Inr:
  "read_entries info inc exc es = (l, Inr ms) \<Longrightarrow>
     map Inr ms = map (\<lambda>e. snd (read_model e)) (filter (kept inc exc) es)"
proof (induction es arbitrary: l ms)
  case Nil
  then show ?case by simp
next
  case (Cons e es)
  from Cons.prems obtain n l1 ms1 l2 ms2 where
    n: "identifier_or_name e = Inr n"
    and h: "(if selected inc exc n then bindL (read_model e) (\<lambda>m. ret [m]) else ret []) =
            (l1, Inr ms1)"
    and r: "read_entries info inc exc es = (l2, Inr ms2)" and ms: "ms = ms1 @ ms2"
    by (auto simp: bindL_Inr bindL_logging_eq simp del: bindL_logging)
  have "map Inr ms1 = map (\<lambda>e. snd (read_model e)) (filter (kept inc exc) [e])"
  proof (cases "selected inc exc n")
    case True
    with h obtain m where "snd (read_model e) = Inr m" "ms1 = [m]"
      by (auto simp: bindL_Inr)
    with True n show ?thesis by (simp add: kept_def)
  next
    case False
    with h n show ?thesis by (simp add: kept_def)
  qed
  with Cons.IH [OF r] ms show ?case by simp
qed

lemma items_Inr: "bindE (py_get v k (YList [])) py_iter = Inr xs \<Longrightarrow> items v k = xs"
  by (simp add: items_def)

lemma read_sources_Inr:
  "read_sources inc exc ss = (l, Inr ms) \<Longrightarrow>
     map Inr ms = map (\<lambda>e. snd (read_model e))
       (filter (kept inc exc) (concat (map (\<lambda>s. items s ''tables'') ss)))"
proof (induction ss arbitrary: l ms)
  case Nil
  then show ?case by simp
next
  case (Cons s ss)
  from Cons.prems obtain tables l1 ms1 l2 ms2 where
    t: "bindE (py_get s ''tables'' (YList [])) py_iter = Inr tables"
    and e: "read_entries InfoSource inc exc tables = (l1, Inr ms1)"
    and r: "read_sources inc exc ss = (l2, Inr ms2)" and ms: "ms = ms1 @ ms2"
    by (auto simp: bindL_Inr)
  from read_entries_Inr [OF e] Cons.IH [OF r] items_Inr [OF t] ms show ?case by simp
qed

lemma read_schema_Inr:
  assumes "read_schema inc exc file = (l, Inr ms)"
  shows "map Inr ms = map (\<lambda>e. snd (read_model e))
           (filter (kept inc exc) (schema_entries (snd file)))"
proof (cases "file")
  case (Pair path schema)
  show ?thesis
  proof (cases "schema = YNull")
    case True
    with assms Pair show ?thesis by (simp add: read_schema_null schema_entries_def)
  next
    case False
    with assms Pair obtain models l1 ms1 sources l2 ms2 where
      m: "bindE (py_get schema ''models'' (YList [])) py_iter = Inr models"
      and e: "read_entries InfoModel inc exc models = (l1, Inr ms1)"
      and s: "bindE (py_get schema ''sources'' (YList [])) py_iter = Inr sources"
      and r: "read_sources inc exc sources = (l2, Inr ms2)" and ms: "ms = ms1 @ ms2"
      by (auto simp: read_schema_def bindL_Inr bindL_logging_eq simp del: bindL_logging)
    from read_entries_Inr [OF e] read_sources_Inr [OF r] items_Inr [OF m] items_Inr [OF s]
      ms False Pair
    show ?thesis by (simp add: schema_entries_def)
  qed
qed

lemma read_schemas_Inr:
  "read_schemas inc exc files = (l, Inr ms) \<Longrightarrow>
     map Inr ms = map (\<lambda>e. snd (read_model e)) (filter (kept inc exc) (entries files))"
proof (induction files arbitrary: l ms)
  case Nil
  then show ?case by (simp add: entries_def)
next
  case (Cons f fs)
  from Cons.prems obtain l1 ms1 l2 ms2 where
    f: "read_schema inc exc f = (l1, Inr ms1)"
    and r: "read_schemas inc exc fs = (l2, Inr ms2)" and ms: "ms = ms1 @ ms2"
    by (auto simp: bindL_Inr)
  from read_schema_Inr [OF f] Cons.IH [OF r] ms show ?case by (simp add: entries_def)
qed

lemma filter_removeAll_rejected: "\<not> P e \<Longrightarrow> filter P (removeAll e xs) = filter P xs"
  by (induction xs) auto

lemma read_model_name_Inr:
  assumes "read_model e = (l, Inr m)" and "identifier_or_name e = Inr (YStr n)"
  shows "name m = upper n"
proof -
  from assms(1) obtain nm d cs where
    "bindE (identifier_or_name e) py_upper = Inr nm"
    and "m = \<lparr>name = nm, description = d, columns = cs\<rparr>"
    unfolding read_model_def by (auto simp: bindL_Inr)
  with assms(2) show ?thesis by (simp add: py_upper_def)
qed

lemma bindL_pair: "bindL (l, Inr x) f = (l @ fst (f x), snd (f x))"
  by (simp add: bindL_def split: prod.splits)

lemmas scan_defs = bindL_pair read_models_def or_empty_def read_schema_def read_model_def
  identifier_or_name_dict selected_def eval_defs

lemma read_customers_file:
  "read_models [customers_file] None None =
     ([InfoProcessing ''models/customers.yml'', InfoModel (YStr ''customers'')],
      Inr [customers_model])"
proof -
  have u: "upper ''customers'' = ''CUSTOMERS''" by code_simp
  show ?thesis by (simp add: customers_file_def customers_model_def scan_defs u)
qed

lemma read_orders_file:
  "read_models [orders_file] None None =
     ([InfoProcessing ''models/orders.yml'', InfoModel (YStr ''orders'')], Inr [orders_model])"
proof -
  have u: "upper ''orders'' = ''ORDERS''" by code_simp
  show ?thesis by (simp add: orders_file_def orders_model_def scan_defs u)
qed

text \<open>
  C5, as stated, fails: a file whose document is a list is not skipped, the scan stops
  there with an \<open>AttributeError\<close> and the models of the sibling file are lost; alone,
  the sibling file is read.
\<close>

theorem read_models_not_mapping_counterexample:
  "read_models
     [(''models/list.yml'', YList []),
      (''models/orders.yml'', YMap [(''models'', YList [YMap [(''name'', YStr ''orders'')]])])]
     None None =
     ([InfoProcessing ''models/list.yml''], Inl AttributeError) \<and>
   read_models
     [(''models/orders.yml'', YMap [(''models'', YList [YMap [(''name'', YStr ''orders'')]])])]
     None None =
     ([InfoProcessing ''models/orders.yml'', InfoModel (YStr ''orders'')],
      Inr [\<lparr>name = ''ORDERS'', description = YNull, columns = []\<rparr>])"
proof -
  have u: "upper ''orders'' = ''ORDERS''" by code_simp
  show ?thesis by (simp add: scan_defs u)
qed

text \<open>
  C5, amended. For every schema file whose document is empty (\<open>None\<close>) that the scan
  reaches, \<open>read_models\<close> logs a warning, adds no model for it and goes on with the
  remaining files: the result is that of the files before it followed by that of the
  files after it. A document that is neither empty nor a mapping (a list, a scalar) is
  not skipped: the scan stops there with an \<open>AttributeError\<close>.
\<close>

theorem read_models_skips_empty:
  assumes "read_models files includes excludes = (l, Inr ms)"
    and "read_models files' includes excludes = (l', r')"
  shows "read_models (files @ (path, YNull) # files') includes excludes =
           (l @ [InfoProcessing path, WarnSkipping path] @ l',
            case r' of Inl e \<Rightarrow> Inl e | Inr ms' \<Rightarrow> Inr (ms @ ms')) \<and>
         (\<forall>schema. schema \<noteq> YNull \<and> \<not> is_dict schema \<longrightarrow>
            read_models (files @ (path, schema) # files') includes excludes =
              (l @ [InfoProcessing path], Inl AttributeError))"
  using assms
  by (cases r')
    (simp_all add: read_models_def read_schemas_append read_schema_null read_schema_not_mapping
      bindL_def ret_def)

theorem read_models_skips_empty_witness:
  "read_models [customers_file] None None =
     ([InfoProcessing ''models/customers.yml'', InfoModel (YStr ''customers'')],
      Inr [customers_model]) \<and>
   read_models ([customers_file] @ (''models/empty.yml'', YNull) # [orders_file]) None None =
     ([InfoProcessing ''models/customers.yml'', InfoModel (YStr ''customers''),
       InfoProcessing ''models/empty.yml'', WarnSkipping ''models/empty.yml'',
       InfoProcessing ''models/orders.yml'', InfoModel (YStr ''orders'')],
      Inr [customers_model, orders_model]) \<and>
   read_models ([customers_file] @ (''models/list.yml'', YList []) # [orders_file]) None None =
     ([InfoProcessing ''models/customers.yml'', InfoModel (YStr ''customers''),
       InfoProcessing ''models/list.yml''], Inl AttributeError)"
proof -
  note t = read_models_skips_empty [OF read_customers_file read_orders_file]
  from t [of "''models/empty.yml''"] have 1:
    "read_models ([customers_file] @ (''models/empty.yml'', YNull) # [orders_file]) None None =
     ([InfoProcessing ''models/customers.yml'', InfoModel (YStr ''customers''),
       InfoProcessing ''models/empty.yml'', WarnSkipping ''models/empty.yml'',
       InfoProcessing ''models/orders.yml'', InfoModel (YStr ''orders'')],
      Inr [customers_model, orders_model])"
    by simp
  from t [of "''models/list.yml''"] have 2:
    "read_models ([customers_file] @ (''models/list.yml'', YList []) # [orders_file]) None None =
     ([InfoProcessing ''models/customers.yml'', InfoModel (YStr ''customers''),
       InfoProcessing ''models/list.yml''], Inl AttributeError)"
    by (simp add: is_dict_def)
  from read_customers_file 1 2 show ?thesis by blast
qed

text \<open>
  C6. When \<open>read_models\<close> returns, its output is, in the order of the entries (per
  file the models, then the tables of the sources), the normalized record of exactly the
  entries whose resolved name (identifier or name) is in \<open>includes\<close>, or \<open>includes\<close>
  is empty, and is not in \<open>excludes\<close>.
\<close>

theorem read_models_filter:
  assumes "read_models files includes excludes = (l, Inr ms)"
  shows "map Inr ms =
     map (\<lambda>e. snd (read_model e))
       (filter (\<lambda>e. \<exists>n. identifier_or_name e = Inr n \<and>
                       (or_empty includes = [] \<or> n \<in> YStr ` set (or_empty includes)) \<and>
                       n \<notin> YStr ` set (or_empty excludes))
          (entries files))"
proof -
  have "kept (or_empty includes) (or_empty excludes) =
      (\<lambda>e. \<exists>n. identifier_or_name e = Inr n \<and>
                 (or_empty includes = [] \<or> n \<in> YStr ` set (or_empty includes)) \<and>
                 n \<notin> YStr ` set (or_empty excludes))"
    by (simp add: kept_def selected_def fun_eq_iff)
  with read_schemas_Inr [OF assms [unfolded read_models_def]] show ?thesis by simp
qed

theorem read_models_filter_witness:
  "read_models [shop_file] (Some [''customers'', ''orders'', ''orders_raw'']) (Some [''orders'']) =
     ([InfoProcessing ''models/schema.yml'', InfoModel (YStr ''customers''),
       InfoModel (YStr ''orders''), InfoModel (YStr ''payments''),
       InfoSource (YStr ''orders_raw'')],
      Inr [customers_model, \<lparr>name = ''ORDERS_RAW'', description = YNull, columns = []\<rparr>]) \<and>
   map Inr [customers_model, \<lparr>name = ''ORDERS_RAW'', description = YNull, columns = []\<rparr>] =
     map (\<lambda>e. snd (read_model e))
       (filter (\<lambda>e. \<exists>n. identifier_or_name e = Inr n \<and>
                       (or_empty (Some [''customers'', ''orders'', ''orders_raw'']) = [] \<or>
                        n \<in> YStr ` set (or_empty (Some [''customers'', ''orders'', ''orders_raw'']))) \<and>
                       n \<notin> YStr ` set (or_empty (Some [''orders''])))
          (entries [shop_file]))"
proof -
  have u: "upper ''customers'' = ''CUSTOMERS''" "upper ''orders_raw'' = ''ORDERS_RAW''"
    by code_simp+
  have h: "read_models [shop_file] (Some [''customers'', ''orders'', ''orders_raw''])
       (Some [''orders'']) =
     ([InfoProcessing ''models/schema.yml'', InfoModel (YStr ''customers''),
       InfoModel (YStr ''orders''), InfoModel (YStr ''payments''),
       InfoSource (YStr ''orders_raw'')],
      Inr [customers_model, \<lparr>name = ''ORDERS_RAW'', description = YNull, columns = []\<rparr>])"
    by (simp add: shop_file_def customers_model_def scan_defs u)
  from read_models_filter [OF h] h show ?thesis by blast
qed

text \<open>
  C10. The filter compares the resolved name as declared, and the name of the record
  is uppercased. So when \<open>read_models\<close> returns, an entry whose resolved name is not in
  \<open>includes\<close>, though it equals one of its names up to letter case, adds nothing to the
  output (the output is that of the other entries), while the record it would get has the
  name of that \<open>includes\<close> name uppercased.
\<close>

theorem read_models_case_sensitive:
  assumes "read_models files (Some includes) excludes = (l, Inr ms)"
    and "identifier_or_name e = Inr (YStr n)"
    and "i \<in> set includes" and "upper i = upper n" and "n \<notin> set includes"
  shows "map Inr ms =
     map (\<lambda>x. snd (read_model x))
       (filter (\<lambda>x. \<exists>k. identifier_or_name x = Inr k \<and> k \<in> YStr ` set includes \<and>
                       k \<notin> YStr ` set (or_empty excludes))
          (removeAll e (entries files))) \<and>
     (\<forall>l' m. read_model e = (l', Inr m) \<longrightarrow> name m = upper i)"
proof -
  let ?P = "\<lambda>x. \<exists>k. identifier_or_name x = Inr k \<and> k \<in> YStr ` set includes \<and>
                       k \<notin> YStr ` set (or_empty excludes)"
  have ne: "includes \<noteq> []" using assms(3) by auto
  then have k: "kept includes (or_empty excludes) = ?P"
    by (simp add: kept_def selected_def fun_eq_iff)
  have "\<not> ?P e" using assms(2,5) by auto
  then have "filter ?P (removeAll e (entries files)) = filter ?P (entries files)"
    by (rule filter_removeAll_rejected)
  with read_schemas_Inr [OF assms(1) [unfolded read_models_def]] k
  have "map Inr ms = map (\<lambda>x. snd (read_model x)) (filter ?P (removeAll e (entries files)))"
    by (simp add: or_empty_def)
  moreover have "\<forall>l' m. read_model e = (l', Inr m) \<longrightarrow> name m = upper i"
    using read_model_name_Inr [OF _ assms(2)] assms(4) by simp
  ultimately show ?thesis by simp
qed

theorem read_models_case_sensitive_witness:
  "read_models [capital_file] (Some [''orders'', ''customers'']) None =
     ([InfoProcessing ''models/schema.yml'', InfoModel (YStr ''Orders''),
       InfoModel (YStr ''customers'')], Inr [customers_model]) \<and>
   identifier_or_name (YMap [(''name'', YStr ''Orders'')]) = Inr (YStr ''Orders'') \<and>
   upper ''orders'' = upper ''Orders'' \<and>
   ''Orders'' \<notin> set [''orders'', ''customers''] \<and>
   YMap [(''name'', YStr ''Orders'')] \<in> set (entries [capital_file]) \<and>
   map Inr [customers_model] =
     map (\<lambda>x. snd (read_model x))
       (filter (\<lambda>x. \<exists>k. identifier_or_name x = Inr k \<and>
                       k \<in> YStr ` set [''orders'', ''customers''] \<and>
                       k \<notin> YStr ` set (or_empty None))
          (removeAll (YMap [(''name'', YStr ''Orders'')]) (entries [capital_file]))) \<and>
   read_model (YMap [(''name'', YStr ''Orders'')]) =
     ([], Inr \<lparr>name = upper ''orders'', description = YNull, columns = []\<rparr>)"
proof -
  have u: "upper ''customers'' = ''CUSTOMERS''" "upper ''Orders'' = ''ORDERS''"
    "upper ''orders'' = ''ORDERS''"
    by code_simp+
  have h: "read_models [capital_file] (Some [''orders'', ''customers'']) None =
     ([InfoProcessing ''models/schema.yml'', InfoModel (YStr ''Orders''),
       InfoModel (YStr ''customers'')], Inr [customers_model])"
    by (simp add: capital_file_def customers_model_def scan_defs u)
  have n: "identifier_or_name (YMap [(''name'', YStr ''Orders'')]) = Inr (YStr ''Orders'')"
    by (simp add: identifier_or_name_dict dict_get_def)
  have e: "YMap [(''name'', YStr ''Orders'')] \<in> set (entries [capital_file])"
    by (simp add: entries_def schema_entries_def items_def capital_file_def eval_defs)
  have m: "read_model (YMap [(''name'', YStr ''Orders'')]) =
     ([], Inr \<lparr>name = upper ''orders'', description = YNull, columns = []\<rparr>)"
    by (simp add: scan_defs u)
  from read_models_case_sensitive [OF h n, of "''orders''"] h n e m u
  show ?thesis by simp
qed

end
